theory Spec2Isabelle
  imports Complex_Main
begin

section \<open>Spline interpolation front end of cupyimg (scipy/ndimage/interpolation.py)\<close>

text \<open>
  The module validates its arguments, chooses the working precision, runs the spline
  prefilter and hands the prepared arrays to CUDA kernels.  The kernels themselves
  (package \<^verbatim>\<open>_kernels.interp\<close>, module \<^verbatim>\<open>_spline_prefilter_core\<close>) are not part of
  the sources at hand.  The embedding therefore follows the Python control flow and
  records every device operation (allocation, element-wise copy, in-place scaling, kernel
  launch) in a trace, in program order.  Building a kernel (\<^verbatim>\<open>_get_map_kernel\<close>,
  \<^verbatim>\<open>get_raw_spline1d_kernel\<close> and the like) and the closed-form helpers
  (\<^verbatim>\<open>get_poles\<close>, \<^verbatim>\<open>get_gain\<close>, \<^verbatim>\<open>get_typename\<close>) leave no mark in the trace and
  are taken to return.  Python floats are idealised as reals.
\<close>

subsection \<open>Element types\<close>

text \<open>The element types of a cupy array.\<close>

datatype dtype =
    Bool
  | Int8 | UInt8 | Int16 | UInt16 | Int32 | UInt32 | Int64 | UInt64
  | Float16 | Float32 | Float64
  | Complex64 | Complex128

text \<open>\<^verbatim>\<open>dtype.kind\<close>: one of the characters b, i, u, f, c.\<close>

fun kind :: "dtype \<Rightarrow> char" where
  "kind Bool = CHR ''b''"
| "kind Int8 = CHR ''i''" | "kind Int16 = CHR ''i''"
| "kind Int32 = CHR ''i''" | "kind Int64 = CHR ''i''"
| "kind UInt8 = CHR ''u''" | "kind UInt16 = CHR ''u''"
| "kind UInt32 = CHR ''u''" | "kind UInt64 = CHR ''u''"
| "kind Float16 = CHR ''f''" | "kind Float32 = CHR ''f''" | "kind Float64 = CHR ''f''"
| "kind Complex64 = CHR ''c''" | "kind Complex128 = CHR ''c''"

text \<open>\<^verbatim>\<open>dtype.itemsize\<close>, in bytes.\<close>

fun itemsize :: "dtype \<Rightarrow> nat" where
  "itemsize Bool = 1"
| "itemsize Int8 = 1" | "itemsize UInt8 = 1"
| "itemsize Int16 = 2" | "itemsize UInt16 = 2"
| "itemsize Int32 = 4" | "itemsize UInt32 = 4"
| "itemsize Int64 = 8" | "itemsize UInt64 = 8"
| "itemsize Float16 = 2" | "itemsize Float32 = 4" | "itemsize Float64 = 8"
| "itemsize Complex64 = 8" | "itemsize Complex128 = 16"

text \<open>
  Bytes of one real component: the precision at which a floating or complex array holds
  its data (a complex number is a pair of floats).  Zero for the types that are not
  floating point.
\<close>

definition float_bytes :: "dtype \<Rightarrow> nat" where
  "float_bytes d =
     (if kind d = CHR ''f'' then itemsize d
      else if kind d = CHR ''c'' then itemsize d div 2
      else 0)"

text \<open>
  \<^verbatim>\<open>numpy.can_cast(a, b, 'safe')\<close>, the order behind \<^verbatim>\<open>promote_types\<close>: an
  integer fits a float that is wider than it, and every integer fits the 8-byte float.
\<close>

definition can_cast :: "dtype \<Rightarrow> dtype \<Rightarrow> bool" where
  "can_cast a b =
     (let ka = kind a; kb = kind b; sa = itemsize a; sb = itemsize b in
      if a = b then True
      else if ka = CHR ''b'' then True
      else if kb = CHR ''b'' then False
      else if ka = CHR ''i'' then
        (if kb = CHR ''i'' then sa \<le> sb
         else if kb = CHR ''u'' then False
         else sa < float_bytes b \<or> float_bytes b = 8)
      else if ka = CHR ''u'' then
        (if kb = CHR ''u'' then sa \<le> sb
         else if kb = CHR ''i'' then sa < sb
         else sa < float_bytes b \<or> float_bytes b = 8)
      else if ka = CHR ''f'' then
        (if kb = CHR ''f'' \<or> kb = CHR ''c'' then sa \<le> float_bytes b else False)
      else
        (if kb = CHR ''c'' then sa \<le> sb else False))"

text \<open>The element types, every safe cast going from left to right.\<close>

definition all_dtypes :: "dtype list" where
  "all_dtypes =
     [Bool, Int8, UInt8, Int16, UInt16, Int32, UInt32, Int64, UInt64,
      Float16, Float32, Float64, Complex64, Complex128]"

text \<open>
  \<^verbatim>\<open>cupy.promote_types(a, b)\<close>: the smallest type to which both arguments cast
  safely.
\<close>

definition promote_types :: "dtype \<Rightarrow> dtype \<Rightarrow> dtype" where
  "promote_types a b =
     (case find (\<lambda>t. can_cast a t \<and> can_cast b t) all_dtypes of
        Some t \<Rightarrow> t
      | None \<Rightarrow> Complex128)"

subsection \<open>Exceptions, arrays, device operations\<close>

text \<open>The Python exceptions the module can raise, with their messages.\<close>

datatype exc =
    ValueError string
  | RuntimeError string
  | IndexError string
  | AxisError string
  | ZeroDivisionError string
  | OverflowError string

text \<open>
  A device array.  \<open>obj_id\<close> is the identity of the Python object (what \<^verbatim>\<open>is\<close>
  compares); \<open>base\<close> names the allocation that backs the array, and
  \<open>lo_byte\<close>, \<open>hi_byte\<close> are the bounds of the bytes it covers there, so that a
  view shares \<open>base\<close> with the array it was sliced from.  \<open>c_order\<close> says that the
  axes lie in memory in C order, which a copy made in \<^verbatim>\<open>'K'\<close> order keeps.
\<close>

record ndarray =
  obj_id :: nat
  base :: nat
  lo_byte :: nat
  hi_byte :: nat
  shape :: "nat list"
  dtype :: dtype
  c_contiguous :: bool
  c_order :: bool

definition ndim :: "ndarray \<Rightarrow> nat" where
  "ndim a = length (shape a)"

text \<open>\<^verbatim>\<open>_misc._prod\<close>: the product of the extents.\<close>

definition py_prod :: "int list \<Rightarrow> int" where
  "py_prod xs = foldr (*) xs 1"

text \<open>
  \<^verbatim>\<open>cupy.shares_memory(a, b, 'MAY_SHARE_BOUNDS')\<close>: same allocation and overlapping
  byte ranges.
\<close>

definition shares_memory :: "ndarray \<Rightarrow> ndarray \<Rightarrow> bool" where
  "shares_memory a b =
     (base a = base b \<and> lo_byte a < hi_byte b \<and> lo_byte b < hi_byte a)"

text \<open>
  Host-side numeric arguments (matrix, offset, shift), after
  \<^verbatim>\<open>cupy.asarray(..., dtype=float)\<close>: a 0-d array, a vector, a matrix given by its
  number of columns and its rows, or an array of three or more axes, of which only the
  shape is kept.
\<close>

datatype fa =
    A0 real
  | A1 "real list"
  | A2 nat "real list list"
  | AN "nat list"

fun fa_shape :: "fa \<Rightarrow> nat list" where
  "fa_shape (A0 x) = []"
| "fa_shape (A1 xs) = [length xs]"
| "fa_shape (A2 c rows) = [length rows, c]"
| "fa_shape (AN sh) = sh"

definition fa_ndim :: "fa \<Rightarrow> nat" where
  "fa_ndim m = length (fa_shape m)"

text \<open>
  A parameter that is either a Python number (no \<^verbatim>\<open>__iter__\<close>, not a cupy array) or
  a sequence or array.
\<close>

datatype param = PyScalar real | PyArr fa

text \<open>The \<^verbatim>\<open>output\<close> argument: an existing array, a dtype, or None.\<close>

datatype output_arg = OutArray ndarray | OutDtype dtype | OutNone

text \<open>
  Device operations, in the order the program issues them.  A sampling kernel is recorded
  with the arrays and parameters it is launched on; for the two affine kernels the matrix
  and offset are the ones of the source before the final float arithmetic, and the flag
  tells whether the opencv rewriting (inverse and roll) was applied to them.
\<close>

datatype event =
    Alloc ndarray
  | Assign ndarray ndarray
  | ScaleInPlace ndarray
  | SplineKernel ndarray nat string int
  | MapKernel ndarray ndarray ndarray string real int bool bool
  | ShiftKernel ndarray "real list" ndarray string real int bool bool
  | ZoomKernel ndarray "real list" ndarray string int bool bool
  | ZoomShiftKernel ndarray fa fa ndarray string real int bool bool
  | AffineKernel ndarray fa fa bool ndarray string real int bool bool

record pstate =
  next_id :: nat
  trace :: "event list"

text \<open>A computation either raises or returns, and leaves the state it reached.\<close>

type_synonym 'a run = "pstate \<Rightarrow> (exc + 'a) \<times> pstate"

definition ok :: "'a \<Rightarrow> 'a run" where
  "ok x s = (Inr x, s)"

definition throw :: "exc \<Rightarrow> 'a run" where
  "throw e s = (Inl e, s)"

definition and_then :: "'a run \<Rightarrow> ('a \<Rightarrow> 'b run) \<Rightarrow> 'b run" where
  "and_then m f s =
     (case m s of
        (Inl e, s') \<Rightarrow> (Inl e, s')
      | (Inr x, s') \<Rightarrow> f x s')"

definition emit :: "event \<Rightarrow> unit run" where
  "emit e s = (Inr (), s\<lparr>trace := trace s @ [e]\<rparr>)"

text \<open>A new C-contiguous array in an allocation of its own.\<close>

definition new_array :: "nat list \<Rightarrow> dtype \<Rightarrow> ndarray run" where
  "new_array shp d s =
     (let a = \<lparr>obj_id = next_id s, base = next_id s, lo_byte = 0,
               hi_byte = nat (py_prod (map int shp)) * itemsize d, shape = shp, dtype = d,
               c_contiguous = True, c_order = True\<rparr>
      in (Inr a, s\<lparr>next_id := Suc (next_id s), trace := trace s @ [Alloc a]\<rparr>))"

text \<open>\<^verbatim>\<open>cupy.zeros(shape, dtype)\<close>: a negative extent is refused.\<close>

definition zeros :: "int list \<Rightarrow> dtype \<Rightarrow> ndarray run" where
  "zeros shp d =
     (if \<exists>n \<in> set shp. n < 0
      then throw (ValueError ''negative dimensions are not allowed'')
      else new_array (map nat shp) d)"

text \<open>
  \<^verbatim>\<open>a.astype(d, copy=False)\<close>: the array itself when it has the type already, else a
  converted copy in \<^verbatim>\<open>'K'\<close> order.
\<close>

definition astype_nocopy :: "ndarray \<Rightarrow> dtype \<Rightarrow> ndarray run" where
  "astype_nocopy a d =
     (if dtype a = d then ok a
      else and_then (new_array (shape a) d)
             (\<lambda>b. and_then (emit (Assign b a))
                (\<lambda>_. ok (b\<lparr>c_contiguous := c_order a, c_order := c_order a\<rparr>))))"

text \<open>\<^verbatim>\<open>a.astype(d)\<close>: always a converted copy.\<close>

definition astype :: "ndarray \<Rightarrow> dtype \<Rightarrow> ndarray run" where
  "astype a d =
     and_then (new_array (shape a) d)
       (\<lambda>b. and_then (emit (Assign b a))
          (\<lambda>_. ok (b\<lparr>c_contiguous := c_order a, c_order := c_order a\<rparr>)))"

text \<open>\<^verbatim>\<open>cupy.ascontiguousarray(a)\<close>: the array itself when it is C-contiguous.\<close>

definition ascontiguousarray :: "ndarray \<Rightarrow> ndarray run" where
  "ascontiguousarray a =
     (if c_contiguous a then ok a
      else and_then (new_array (shape a) (dtype a))
             (\<lambda>b. and_then (emit (Assign b a)) (\<lambda>_. ok b)))"

text \<open>\<^verbatim>\<open>a.copy()\<close>.\<close>

definition copy_array :: "ndarray \<Rightarrow> ndarray run" where
  "copy_array a =
     and_then (new_array (shape a) (dtype a))
       (\<lambda>b. and_then (emit (Assign b a)) (\<lambda>_. ok b))"

text \<open>
  Broadcasting.  \<open>broadcast_to_ok src dst\<close>: an array of shape \<open>src\<close> can be assigned
  to an array or slice of shape \<open>dst\<close>; \<open>broadcast_compatible\<close>: two operands of
  an element-wise operation fit.  Shapes are compared from the last axis.
\<close>

fun bc_to :: "nat list \<Rightarrow> nat list \<Rightarrow> bool" where
  "bc_to [] ds = True"
| "bc_to (s # ss) [] = (s = 1 \<and> bc_to ss [])"
| "bc_to (s # ss) (d # ds) = ((s = d \<or> s = 1) \<and> bc_to ss ds)"

definition broadcast_to_ok :: "nat list \<Rightarrow> nat list \<Rightarrow> bool" where
  "broadcast_to_ok src dst = bc_to (rev src) (rev dst)"

fun bc_both :: "nat list \<Rightarrow> nat list \<Rightarrow> bool" where
  "bc_both [] ds = True"
| "bc_both ss [] = True"
| "bc_both (s # ss) (d # ds) = ((s = d \<or> s = 1 \<or> d = 1) \<and> bc_both ss ds)"

definition broadcast_compatible :: "nat list \<Rightarrow> nat list \<Rightarrow> bool" where
  "broadcast_compatible a b = bc_both (rev a) (rev b)"

text \<open>
  \<^verbatim>\<open>dst[...] = src[...]\<close> into an array the caller supplied: cupy refuses shapes
  that do not broadcast.
\<close>

definition assign :: "ndarray \<Rightarrow> ndarray \<Rightarrow> unit run" where
  "assign dst src =
     (if broadcast_to_ok (shape src) (shape dst)
      then emit (Assign dst src)
      else throw (ValueError ''could not broadcast input array''))"

subsection \<open>Argument checks and output allocation\<close>

text \<open>\<^verbatim>\<open>_get_output(output, input, shape=None)\<close>.\<close>

definition get_output :: "output_arg \<Rightarrow> ndarray \<Rightarrow> int list option \<Rightarrow> ndarray run" where
  "get_output output input shape_opt =
     (let shp = (case shape_opt of None \<Rightarrow> map int (shape input) | Some sh \<Rightarrow> sh) in
      case output of
        OutArray out \<Rightarrow>
          if map int (shape out) \<noteq> shp
          then throw (ValueError ''output shape is not correct'')
          else ok out
      | OutDtype d \<Rightarrow> zeros shp d
      | OutNone \<Rightarrow> zeros shp (dtype input))"

text \<open>The boundary modes \<^verbatim>\<open>_check_parameter\<close> lets through.\<close>

definition known_modes :: "string list" where
  "known_modes =
     [''constant'', ''nearest'', ''mirror'', ''reflect'', ''wrap'', ''opencv'',
      ''_opencv_edge'']"

text \<open>
  \<^verbatim>\<open>_check_parameter(func_name, order, mode)\<close>.  The warnings are switched off in the
  source (\<^verbatim>\<open>warn = False\<close>), so only the two checks remain.  The order is an integer:
  the check compares it with 0 first, so the later lines \<^verbatim>\<open>if order is None\<close> of the
  transforms are never reached with None.
\<close>

definition check_parameter :: "string \<Rightarrow> int \<Rightarrow> string \<Rightarrow> unit run" where
  "check_parameter func_name order mode =
     (if order < 0 \<or> 5 < order
      then throw (ValueError ''spline order is not supported'')
      else if mode \<notin> set known_modes
      then throw (ValueError ''boundary mode is not supported'')
      else ok ())"

text \<open>
  Modelled from the spec: \<^verbatim>\<open>_misc._normalize_axis_index(axis, ndim)\<close>, whose module is
  not among the sources.  The specification gives it no behaviour of its own, so it is
  taken by its name to be numpy's \<^verbatim>\<open>normalize_axis_index\<close>: an axis in
  \<open>[-ndim, ndim)\<close> is accepted and counted from the front, any other raises AxisError.
  Inside the module it is only ever called with the caller's axis of
  \<^verbatim>\<open>spline_filter1d\<close> and with the axes \<open>0, ..., ndim - 1\<close> of the loop of
  \<^verbatim>\<open>spline_filter\<close>.
\<close>

definition normalize_axis_index :: "int \<Rightarrow> nat \<Rightarrow> nat run" where
  "normalize_axis_index axis n =
     (if axis < - int n \<or> int n \<le> axis
      then throw (AxisError ''axis is out of bounds'')
      else ok (nat (if axis < 0 then axis + int n else axis)))"

subsection \<open>The spline prefilter\<close>

text \<open>
  \<^verbatim>\<open>_get_spline_output(input, output, allow_float32)\<close>: the workspace \<open>temp\<close>, its
  type and the type of the final result.
\<close>

definition min_float_dtype :: "ndarray \<Rightarrow> bool \<Rightarrow> dtype" where
  "min_float_dtype input allow_float32 =
     (if kind (dtype input) = CHR ''c''
      then (if allow_float32 then Complex64 else Complex128)
      else (if allow_float32 then Float32 else Float64))"

definition get_spline_output ::
  "ndarray \<Rightarrow> output_arg \<Rightarrow> bool \<Rightarrow> (ndarray \<times> dtype \<times> dtype) run" where
  "get_spline_output input output allow_float32 =
     (let complex_data = (kind (dtype input) = CHR ''c'');
          mfd = min_float_dtype input allow_float32 in
      case output of
        OutArray out \<Rightarrow>
          if complex_data \<and> kind (dtype out) \<noteq> CHR ''c''
          then throw (ValueError ''output must have complex dtype for complex inputs'')
          else
            (let float_dtype = promote_types (dtype out) mfd;
                 output_dtype = dtype out in
             if dtype out = float_dtype \<and> float_dtype = output_dtype \<and> c_contiguous out
             then and_then
                    (if obj_id out \<noteq> obj_id input then assign out input else ok ())
                    (\<lambda>_. ok (out, float_dtype, output_dtype))
             else and_then (astype_nocopy input float_dtype)
                    (\<lambda>t1. and_then (ascontiguousarray t1)
                       (\<lambda>t2. and_then
                                (if shares_memory t2 input then copy_array t2 else ok t2)
                                (\<lambda>temp. ok (temp, float_dtype, output_dtype)))))
      | other \<Rightarrow>
          (let output_dtype = (case other of OutDtype d \<Rightarrow> d | _ \<Rightarrow> dtype input);
               float_dtype = promote_types output_dtype mfd in
           and_then (astype_nocopy input float_dtype)
             (\<lambda>t1. and_then (ascontiguousarray t1)
                (\<lambda>t2. and_then
                         (if shares_memory t2 input then copy_array t2 else ok t2)
                         (\<lambda>temp. ok (temp, float_dtype, output_dtype))))))"

text \<open>
  \<^verbatim>\<open>spline_filter1d\<close>, after the order check and the axis normalisation (lines 177 to
  225): the pass-through for orders 0 and 1, rank 0 and extent 1, else gain and kernel on
  \<open>temp\<close>.  Python's \<^verbatim>\<open>or\<close> does not look at the extent of a rank-0 array.
  Along an axis of extent 0 the number of lines, \<^verbatim>\<open>x.size // n_samples\<close> in line 205,
  is a division by zero; the workspace has been made by then.
\<close>

definition spline_filter1d_at ::
  "ndarray \<Rightarrow> int \<Rightarrow> nat \<Rightarrow> output_arg \<Rightarrow> string \<Rightarrow> bool \<Rightarrow> ndarray run" where
  "spline_filter1d_at x order axis output mode allow_float32 =
     (let run_kernel = \<not> (order < 2 \<or> ndim x = 0 \<or> shape x ! axis = 1) in
      if \<not> run_kernel
      then and_then (get_output output x None)
             (\<lambda>out. and_then (assign out x) (\<lambda>_. ok out))
      else and_then (get_spline_output x output allow_float32)
             (\<lambda>(temp, data_dtype, output_dtype).
                if shape x ! axis = 0
                then throw (ZeroDivisionError ''integer division or modulo by zero'')
                else
                and_then (emit (ScaleInPlace temp))
                  (\<lambda>_. and_then (emit (SplineKernel temp axis mode order))
                     (\<lambda>_. case output of
                             OutArray out \<Rightarrow>
                               if obj_id temp \<noteq> obj_id out
                               then and_then (assign out temp) (\<lambda>_. ok out)
                               else astype_nocopy temp output_dtype
                           | _ \<Rightarrow> astype_nocopy temp output_dtype))))"

text \<open>\<^verbatim>\<open>spline_filter1d(input, order, axis, output, mode, allow_float32)\<close>.\<close>

definition spline_filter1d ::
  "ndarray \<Rightarrow> int \<Rightarrow> int \<Rightarrow> output_arg \<Rightarrow> string \<Rightarrow> bool \<Rightarrow> ndarray run" where
  "spline_filter1d input order axis output mode allow_float32 =
     (if order < 0 \<or> order > 5
      then throw (RuntimeError ''spline order not supported'')
      else and_then (normalize_axis_index axis (ndim input))
             (\<lambda>ax. spline_filter1d_at input order ax output mode allow_float32))"

text \<open>
  The loop of \<^verbatim>\<open>spline_filter\<close> over the axes: each pass filters \<open>x\<close> into
  \<open>temp\<close>, and from the second pass on \<open>x\<close> is \<open>temp\<close>.
\<close>

fun spline_filter_axes ::
  "ndarray \<Rightarrow> ndarray \<Rightarrow> int \<Rightarrow> nat list \<Rightarrow> string \<Rightarrow> bool \<Rightarrow> unit run" where
  "spline_filter_axes x temp order [] mode allow_float32 = ok ()"
| "spline_filter_axes x temp order (axis # axes) mode allow_float32 =
     and_then (spline_filter1d x order (int axis) (OutArray temp) mode allow_float32)
       (\<lambda>_. spline_filter_axes temp temp order axes mode allow_float32)"

text \<open>\<^verbatim>\<open>spline_filter(input, order, output, mode, allow_float32)\<close>.\<close>

definition spline_filter ::
  "ndarray \<Rightarrow> int \<Rightarrow> output_arg \<Rightarrow> string \<Rightarrow> bool \<Rightarrow> ndarray run" where
  "spline_filter input order output mode allow_float32 =
     (if order < 2 \<or> order > 5
      then throw (RuntimeError ''spline order not supported'')
      else and_then (get_spline_output input output allow_float32)
             (\<lambda>(temp, data_dtype, output_dtype).
                and_then
                  (if order \<notin> {0, 1} \<and> ndim input > 0
                   then spline_filter_axes input temp order [0 ..< ndim input] mode
                          allow_float32
                   else ok ())
                  (\<lambda>_. and_then
                          (case output of
                             OutArray out \<Rightarrow>
                               and_then (assign out temp) (\<lambda>_. ok out)
                           | _ \<Rightarrow> ok temp)
                          (\<lambda>res. if dtype res \<noteq> output_dtype
                                  then astype res output_dtype
                                  else ok res))))"

subsection \<open>Steps shared by the transforms\<close>

text \<open>
  \<^verbatim>\<open>if input.dtype.kind in "iu": input = input.astype(cupy.float32)\<close>, the same two
  lines in \<^verbatim>\<open>map_coordinates\<close>, \<^verbatim>\<open>affine_transform\<close>, \<^verbatim>\<open>shift\<close> and
  \<^verbatim>\<open>zoom\<close>.
\<close>

definition integer_kind :: "dtype \<Rightarrow> bool" where
  "integer_kind d = (kind d = CHR ''i'' \<or> kind d = CHR ''u'')"

definition integer_to_float32 :: "ndarray \<Rightarrow> ndarray run" where
  "integer_to_float32 input =
     (if integer_kind (dtype input) then astype input Float32 else ok input)"

text \<open>
  \<^verbatim>\<open>if prefilter and order > 1: filtered = spline_filter(input, order,
  output=input.dtype, mode=mode, allow_float32=allow_float32) else: filtered = input\<close>.
\<close>

definition prefiltered :: "ndarray \<Rightarrow> int \<Rightarrow> string \<Rightarrow> bool \<Rightarrow> bool \<Rightarrow> ndarray run" where
  "prefiltered input order mode prefilter allow_float32 =
     (if prefilter \<and> order > 1
      then spline_filter input order (OutDtype (dtype input)) mode allow_float32
      else ok input)"

text \<open>\<^verbatim>\<open>1 << 31\<close>.\<close>

definition two31 :: int where
  "two31 = 2147483648"

subsection \<open>map_coordinates\<close>

text \<open>The dtype of \<^verbatim>\<open>cupy.add(coordinates, 1)\<close>: a boolean array becomes an integer one.\<close>

definition add_one_dtype :: "dtype \<Rightarrow> dtype" where
  "add_one_dtype d = (if d = Bool then Int64 else d)"

text \<open>Lines 354 to 373: the coordinates are made floating point.\<close>

definition convert_coordinates :: "ndarray \<Rightarrow> int \<Rightarrow> bool \<Rightarrow> ndarray run" where
  "convert_coordinates coordinates order allow_float32 =
     (if integer_kind (dtype coordinates) then
        (if order > 1
         then astype coordinates
                (promote_types (dtype coordinates)
                   (if allow_float32 then Float32 else Float64))
         else ok coordinates)
      else if kind (dtype coordinates) \<noteq> CHR ''f''
      then throw (ValueError ''coordinates should have floating point dtype'')
      else astype_nocopy coordinates
             (promote_types (dtype coordinates)
                (if allow_float32 then Float32 else Float64)))"

text \<open>
  \<^verbatim>\<open>map_coordinates(input, coordinates, output, order, mode, cval, prefilter,
  allow_float32)\<close>.
\<close>

definition map_coordinates ::
  "ndarray \<Rightarrow> ndarray \<Rightarrow> output_arg \<Rightarrow> int \<Rightarrow> string \<Rightarrow> real \<Rightarrow> bool \<Rightarrow> bool
     \<Rightarrow> ndarray run" where
  "map_coordinates input0 coordinates0 output order mode0 cval prefilter allow_float32 =
     and_then (check_parameter ''map_coordinates'' order mode0)
       (\<lambda>_. and_then
          (if mode0 = ''opencv'' \<or> mode0 = ''_opencv_edge''
           then and_then (new_array (map (\<lambda>n. n + 2) (shape input0)) (dtype input0))
                  (\<lambda>padded. and_then (emit (Assign padded input0))
                     (\<lambda>_. and_then
                             (new_array (shape coordinates0)
                                (add_one_dtype (dtype coordinates0)))
                             (\<lambda>shifted. and_then (emit (Assign shifted coordinates0))
                                (\<lambda>_. ok (padded, shifted, ''constant'')))))
           else ok (input0, coordinates0, mode0))
          (\<lambda>(input1, coordinates1, mode).
             and_then (get_output output input1 (Some (map int (tl (shape coordinates1)))))
               (\<lambda>ret. and_then (integer_to_float32 input1)
                  (\<lambda>input. and_then (convert_coordinates coordinates1 order allow_float32)
                     (\<lambda>coordinates2.
                        and_then (prefiltered input order mode prefilter allow_float32)
                          (\<lambda>filtered0.
                             if shape coordinates2 = []
                             then throw (IndexError ''tuple index out of range'')
                             else and_then (ascontiguousarray filtered0)
                               (\<lambda>filtered. and_then (ascontiguousarray coordinates2)
                                  (\<lambda>coordinates.
                                     and_then
                                       (emit (MapKernel filtered coordinates ret mode cval
                                          order (integer_kind (dtype ret))
                                          (max (py_prod (map int (shape input)))
                                             (int (hd (shape coordinates2))) > two31)))
                                       (\<lambda>_. ok ret)))))))))"

subsection \<open>affine_transform\<close>

text \<open>
  Lines 488 to 494: a matrix with one column more than rows is split into its last column
  (the offset) and the rest; otherwise a matrix with \<open>ndim + 1\<close> rows loses its last
  row and is split in the same way.  Either way the caller's offset is replaced.  No other
  shape is looked at.  Indexing the last column of a matrix without columns raises.
\<close>

definition split_matrix :: "nat \<Rightarrow> fa \<Rightarrow> fa \<Rightarrow> (fa \<times> fa) run" where
  "split_matrix n matrix offset =
     (case matrix of
        A2 c rows \<Rightarrow>
          if int (length rows) = int c - 1
          then ok (A2 (c - 1) (map butlast rows), A1 (map last rows))
          else if length rows = n + 1
          then (if c = 0
                then throw (IndexError ''index -1 is out of bounds for axis 1 with size 0'')
                else ok (A2 (c - 1) (map butlast (butlast rows)),
                         A1 (map last (butlast rows))))
          else ok (matrix, offset)
      | _ \<Rightarrow> ok (matrix, offset))"

text \<open>
  \<^verbatim>\<open>affine_transform(input, matrix, offset, output_shape, output, order, mode, cval,
  prefilter, allow_float32)\<close>.  Under mode opencv the matrix and offset are written into
  a homogeneous matrix, which is inverted and rolled; the result is always
  two-dimensional.  The only shape errors are those of the assignments themselves.
\<close>

definition affine_transform ::
  "ndarray \<Rightarrow> fa \<Rightarrow> param \<Rightarrow> int list option \<Rightarrow> output_arg \<Rightarrow> int \<Rightarrow> string \<Rightarrow> real
     \<Rightarrow> bool \<Rightarrow> bool \<Rightarrow> ndarray run" where
  "affine_transform input0 matrix0 offset_arg output_shape_opt output order mode cval
     prefilter allow_float32 =
     and_then (check_parameter ''affine_transform'' order mode)
       (\<lambda>_. let n = ndim input0;
                 offset0 = (case offset_arg of
                              PyScalar x \<Rightarrow> A1 (replicate n x)
                            | PyArr a \<Rightarrow> a) in
          if fa_ndim matrix0 \<notin> {1, 2}
          then throw (RuntimeError ''no proper affine matrix provided'')
          else and_then (split_matrix n matrix0 offset0)
            (\<lambda>(matrix, offset).
               let opencv = (mode = ''opencv'') in
               if opencv \<and> \<not> (broadcast_to_ok (fa_shape matrix) [n, n]
                                \<and> broadcast_to_ok (fa_shape offset) [n])
               then throw (ValueError ''could not broadcast input array'')
               else
                 let output_shape = (case output_shape_opt of
                                       None \<Rightarrow> map int (shape input0)
                                     | Some sh \<Rightarrow> sh) in
                 and_then (get_output output input0 (Some output_shape))
                   (\<lambda>out. and_then (integer_to_float32 input0)
                      (\<lambda>input.
                         and_then (prefiltered input order mode prefilter allow_float32)
                           (\<lambda>filtered0. and_then (ascontiguousarray filtered0)
                              (\<lambda>filtered.
                                 let integer_output = integer_kind (dtype out);
                                     large_int =
                                       (max (py_prod (map int (shape input)))
                                          (py_prod output_shape) > two31) in
                                 if fa_ndim matrix = 1 \<and> \<not> opencv
                                 then
                                   (if \<not> broadcast_compatible (fa_shape offset)
                                           (fa_shape matrix)
                                    then throw
                                      (ValueError ''operands could not be broadcast together'')
                                    else and_then
                                      (emit (ZoomShiftKernel filtered offset matrix out mode
                                         cval order integer_output large_int))
                                      (\<lambda>_. ok out))
                                 else
                                   (if \<not> opencv
                                       \<and> \<not> (broadcast_to_ok (fa_shape matrix) [n, n]
                                              \<and> broadcast_to_ok (fa_shape offset) [n])
                                    then throw
                                      (ValueError ''could not broadcast input array'')
                                    else and_then
                                      (emit (AffineKernel filtered matrix offset opencv out
                                         mode cval order integer_output large_int))
                                      (\<lambda>_. ok out))))))))"

subsection \<open>rotate\<close>

text \<open>\<^verbatim>\<open>ndarray.ptp\<close> along a row: largest minus smallest entry.\<close>

definition ptp :: "real list \<Rightarrow> real" where
  "ptp xs = foldr max xs (hd xs) - foldr min xs (hd xs)"

text \<open>\<^verbatim>\<open>astype(int)\<close> on a float: the fraction is dropped, towards zero.\<close>

definition trunc_int :: "real \<Rightarrow> int" where
  "trunc_int x = (if 0 \<le> x then \<lfloor>x\<rfloor> else \<lceil>x\<rceil>)"

text \<open>
  Lines 645 to 653: negative axes count from the end, the two axes are put in increasing
  order, and a plane outside the array is refused.
\<close>

definition rotation_axes :: "nat \<Rightarrow> int \<times> int \<Rightarrow> exc + (nat \<times> nat)" where
  "rotation_axes n axes =
     (let a0 = (if fst axes < 0 then fst axes + int n else fst axes);
          a1 = (if snd axes < 0 then snd axes + int n else snd axes);
          b0 = (if a0 > a1 then a1 else a0);
          b1 = (if a0 > a1 then a0 else a1) in
      if b0 < 0 \<or> int n \<le> b1
      then Inl (ValueError ''invalid rotation plane specified'')
      else Inr (nat b0, nat b1))"

text \<open>
  Lines 663 to 672: the shape of the output plane.  With \<open>reshape\<close> the four corners
  \<open>(0, 0)\<close>, \<open>(0, ix)\<close>, \<open>(iy, 0)\<close>, \<open>(iy, ix)\<close> are rotated, and the extent
  of their bounding box plus one half is truncated to an integer.
\<close>

definition out_bounds :: "real \<Rightarrow> real \<Rightarrow> nat \<Rightarrow> nat \<Rightarrow> real list \<times> real list" where
  "out_bounds c s iy ix =
     (map (\<lambda>(y, x). c * y + s * x)
        [(0, 0), (0, real ix), (real iy, 0), (real iy, real ix)],
      map (\<lambda>(y, x). - s * y + c * x)
        [(0, 0), (0, real ix), (real iy, 0), (real iy, real ix)])"

definition out_plane_shape :: "bool \<Rightarrow> real \<Rightarrow> real \<Rightarrow> nat \<Rightarrow> nat \<Rightarrow> int \<times> int" where
  "out_plane_shape reshape c s iy ix =
     (if reshape
      then (trunc_int (ptp (fst (out_bounds c s iy ix)) + 0.5),
            trunc_int (ptp (snd (out_bounds c s iy ix)) + 0.5))
      else (int iy, int ix))"

text \<open>
  The identity matrix with the rotation written into the plane of the two axes, entry by
  entry as in lines 681 to 685.
\<close>

definition identity_rows :: "nat \<Rightarrow> real list list" where
  "identity_rows n = map (\<lambda>i. map (\<lambda>j. if i = j then 1 else 0) [0 ..< n]) [0 ..< n]"

definition set_entry :: "real list list \<Rightarrow> nat \<Rightarrow> nat \<Rightarrow> real \<Rightarrow> real list list" where
  "set_entry m i j v = m[i := (m ! i)[j := v]]"

definition rotation_matrix :: "nat \<Rightarrow> nat \<Rightarrow> nat \<Rightarrow> real \<Rightarrow> real \<Rightarrow> real list list" where
  "rotation_matrix n a0 a1 c s =
     set_entry (set_entry (set_entry (set_entry (identity_rows n) a0 a0 c) a0 a1 s)
        a1 a0 (- s)) a1 a1 c"

text \<open>
  Lines 655 to 691 of \<^verbatim>\<open>rotate\<close>: the matrix, the offset and the output shape that
  are handed to \<^verbatim>\<open>affine_transform\<close>.  The angle is in degrees.
\<close>

definition rotate_params ::
  "nat list \<Rightarrow> real \<Rightarrow> nat \<times> nat \<Rightarrow> bool \<Rightarrow> real list list \<times> real list \<times> int list" where
  "rotate_params img_shape angle axes reshape =
     (let n = length img_shape;
          a0 = fst axes; a1 = snd axes;
          rad = angle * pi / 180;
          s = sin rad; c = cos rad;
          iy = img_shape ! a0; ix = img_shape ! a1;
          ops = out_plane_shape reshape c s iy ix;
          hy = (real_of_int (fst ops) - 1) / 2;
          hx = (real_of_int (snd ops) - 1) / 2;
          out_center = (c * hy + s * hx, - s * hy + c * hx);
          in_center = ((real iy - 1) / 2, (real ix - 1) / 2);
          output_shape = (map int img_shape)[a0 := fst ops, a1 := snd ops];
          matrix = rotation_matrix n a0 a1 c s;
          offset = (replicate n 0)[a0 := fst in_center - fst out_center,
                                   a1 := snd in_center - snd out_center]
      in (matrix, offset, output_shape))"

text \<open>
  \<^verbatim>\<open>rotate(input, angle, axes, reshape, output, order, mode, cval, prefilter,
  allow_float32)\<close>.
\<close>

definition rotate ::
  "ndarray \<Rightarrow> real \<Rightarrow> int \<times> int \<Rightarrow> bool \<Rightarrow> output_arg \<Rightarrow> int \<Rightarrow> string \<Rightarrow> real
     \<Rightarrow> bool \<Rightarrow> bool \<Rightarrow> ndarray run" where
  "rotate input angle axes reshape output order mode0 cval prefilter allow_float32 =
     and_then (check_parameter ''rotate'' order mode0)
       (\<lambda>_. let mode = (if mode0 = ''opencv'' then ''_opencv_edge'' else mode0) in
          case rotation_axes (ndim input) axes of
            Inl e \<Rightarrow> throw e
          | Inr ax \<Rightarrow>
              (case rotate_params (shape input) angle ax reshape of
                 (matrix, offset, output_shape) \<Rightarrow>
                   affine_transform input (A2 (ndim input) matrix) (PyArr (A1 offset))
                     (Some output_shape) output order mode cval prefilter allow_float32))"

subsection \<open>shift\<close>

text \<open>\<^verbatim>\<open>cupy.negative\<close> on a host-side array.\<close>

fun fa_negative :: "fa \<Rightarrow> fa" where
  "fa_negative (A0 x) = A0 (- x)"
| "fa_negative (A1 xs) = A1 (map uminus xs)"
| "fa_negative (A2 c rows) = A2 c (map (map uminus) rows)"
| "fa_negative (AN sh) = AN sh"

text \<open>
  \<^verbatim>\<open>shift(input, shift, output, order, mode, cval, prefilter, allow_float32)\<close>.
  Under mode opencv the work is passed to \<^verbatim>\<open>affine_transform\<close> with a diagonal of
  ones, and \<^verbatim>\<open>allow_float32\<close> is not passed on, so the callee's default (True)
  applies.  Otherwise the shift vector is checked in lines 813 to 817, after the
  prefilter and right before the kernel is launched.
\<close>

definition shift ::
  "ndarray \<Rightarrow> param \<Rightarrow> output_arg \<Rightarrow> int \<Rightarrow> string \<Rightarrow> real \<Rightarrow> bool \<Rightarrow> bool
     \<Rightarrow> ndarray run" where
  "shift input0 shift_arg output order mode cval prefilter allow_float32 =
     and_then (check_parameter ''shift'' order mode)
       (\<lambda>_. let shift0 = (case shift_arg of
                             PyScalar x \<Rightarrow> A1 (replicate (ndim input0) x)
                           | PyArr a \<Rightarrow> a) in
          if mode = ''opencv''
          then affine_transform input0 (A1 (replicate (ndim input0) 1))
                 (PyArr (fa_negative shift0)) None output order ''_opencv_edge'' cval
                 prefilter True
          else and_then (get_output output input0 None)
            (\<lambda>out. and_then (integer_to_float32 input0)
               (\<lambda>input. and_then (prefiltered input order mode prefilter allow_float32)
                  (\<lambda>filtered0. and_then (ascontiguousarray filtered0)
                     (\<lambda>filtered.
                        case shift0 of
                          A1 v \<Rightarrow>
                            if length v \<noteq> ndim filtered
                            then throw (ValueError ''len(shift) must equal input.ndim'')
                            else and_then
                              (emit (ShiftKernel filtered v out mode cval order
                                 (integer_kind (dtype out))
                                 (py_prod (map int (shape input)) > two31)))
                              (\<lambda>_. ok out)
                        | _ \<Rightarrow> throw (ValueError ''shift must be 1d''))))))"

subsection \<open>zoom\<close>

text \<open>
  Python's \<^verbatim>\<open>round\<close> of a float to an integer: to the nearest, a tie to the even
  neighbour.
\<close>

definition py_round :: "real \<Rightarrow> int" where
  "py_round x =
     (let f = \<lfloor>x\<rfloor>; d = x - of_int f in
      if d < 1 / 2 then f
      else if 1 / 2 < d then f + 1
      else if even f then f else f + 1)"

text \<open>
  The zoom argument: a Python number or a flat sequence of numbers (\<^verbatim>\<open>round\<close> needs
  a number for every axis).
\<close>

datatype zoom_arg = ZScalar real | ZSeq "real list"

text \<open>Lines 876 to 881: the output shape; \<^verbatim>\<open>zip\<close> stops at the shorter sequence.\<close>

definition zoom_output_shape :: "nat list \<Rightarrow> real list \<Rightarrow> int list" where
  "zoom_output_shape shp zs = map (\<lambda>(s, z). py_round (real s * z)) (zip shp zs)"

text \<open>Lines 910 to 915: the factors the zoom kernel is given.\<close>

definition zoom_factors :: "nat list \<Rightarrow> int list \<Rightarrow> real list" where
  "zoom_factors shp output_shape =
     map (\<lambda>(in_size, out_size).
            if out_size > 1
            then (real in_size - 1) / (real_of_int out_size - 1)
            else 0)
       (zip shp output_shape)"

text \<open>Lines 884 to 892: factors and offsets under mode opencv.\<close>

definition opencv_zoom_factors :: "nat list \<Rightarrow> int list \<Rightarrow> real list" where
  "opencv_zoom_factors shp output_shape =
     map (\<lambda>(in_size, out_size).
            if out_size > 1 then real in_size / real_of_int out_size else 0)
       (zip shp output_shape)"

definition opencv_zoom_offsets :: "nat list \<Rightarrow> int list \<Rightarrow> real list" where
  "opencv_zoom_offsets shp output_shape =
     map (\<lambda>(in_size, out_size).
            if out_size > 1 then (real in_size / real_of_int out_size - 1) / 2 else 0)
       (zip shp output_shape)"

text \<open>
  \<^verbatim>\<open>zoom(input, zoom, output, order, mode, cval, prefilter, allow_float32)\<close>.  The
  list handed to the kernel is rebuilt from the shapes, so it is always one-dimensional
  and only its length can be wrong; that is checked in lines 948 to 952, after the
  prefilter.  Under mode opencv \<^verbatim>\<open>allow_float32\<close> is not passed on.
\<close>

definition zoom ::
  "ndarray \<Rightarrow> zoom_arg \<Rightarrow> output_arg \<Rightarrow> int \<Rightarrow> string \<Rightarrow> real \<Rightarrow> bool \<Rightarrow> bool
     \<Rightarrow> ndarray run" where
  "zoom input0 zoom_arg output order mode cval prefilter allow_float32 =
     and_then (check_parameter ''zoom'' order mode)
       (\<lambda>_. let zs = (case zoom_arg of
                         ZScalar z \<Rightarrow> replicate (ndim input0) z
                       | ZSeq l \<Rightarrow> l);
                 output_shape = zoom_output_shape (shape input0) zs in
          if mode = ''opencv''
          then affine_transform input0
                 (A1 (opencv_zoom_factors (shape input0) output_shape))
                 (PyArr (A1 (opencv_zoom_offsets (shape input0) output_shape)))
                 (Some output_shape) output order ''nearest'' cval prefilter True
          else
            let factors = zoom_factors (shape input0) output_shape in
            and_then (get_output output input0 (Some output_shape))
              (\<lambda>out. and_then (integer_to_float32 input0)
                 (\<lambda>input. and_then (prefiltered input order mode prefilter allow_float32)
                    (\<lambda>filtered0. and_then (ascontiguousarray filtered0)
                       (\<lambda>filtered.
                          if length factors \<noteq> ndim filtered
                          then throw (ValueError ''len(zoom) must equal input.ndim'')
                          else and_then
                            (emit (ZoomKernel filtered factors out mode order
                               (integer_kind (dtype out))
                               (max (py_prod (map int (shape input)))
                                  (py_prod output_shape) > two31)))
                            (\<lambda>_. ok out))))))"

section \<open>Properties\<close>

subsection \<open>Traces, results and exceptions of a run\<close>

text \<open>
  \<open>steps m G Q E\<close>: whatever the state, running \<open>m\<close> only appends device operations
  that satisfy \<open>G\<close> to the trace; a value it returns satisfies \<open>Q\<close>, an exception it
  raises satisfies \<open>E\<close>.
\<close>

definition steps :: "'a run \<Rightarrow> (event \<Rightarrow> bool) \<Rightarrow> ('a \<Rightarrow> bool) \<Rightarrow> (exc \<Rightarrow> bool) \<Rightarrow> bool" where
  "steps m G Q E =
     (\<forall>s r s'. m s = (r, s') \<longrightarrow>
        (\<exists>evs. trace s' = trace s @ evs \<and> (\<forall>e \<in> set evs. G e)) \<and>
        (case r of Inl e \<Rightarrow> E e | Inr x \<Rightarrow> Q x))"

text \<open>Allocations and copies are allowed by \<open>G\<close>.\<close>

definition benign :: "(event \<Rightarrow> bool) \<Rightarrow> bool" where
  "benign G = ((\<forall>a. G (Alloc a)) \<and> (\<forall>a b. G (Assign a b)))"

text \<open>The exceptions that come from the shapes and types of the arrays.\<close>

definition data_errors :: "exc set" where
  "data_errors =
     {ValueError ''output must have complex dtype for complex inputs'',
      ValueError ''could not broadcast input array'',
      ValueError ''output shape is not correct'',
      ValueError ''negative dimensions are not allowed'',
      AxisError ''axis is out of bounds'',
      ZeroDivisionError ''integer division or modulo by zero''}"

text \<open>
  The array has a type that \<^verbatim>\<open>_get_spline_output\<close> computes as \<^verbatim>\<open>float_dtype\<close>
  under the given \<^verbatim>\<open>allow_float32\<close>.
\<close>

definition working_dtype :: "bool \<Rightarrow> ndarray \<Rightarrow> bool" where
  "working_dtype allow_float32 t =
     (\<exists>d x. dtype t = promote_types d (min_float_dtype x allow_float32))"

text \<open>\<open>G\<close> allows what the prefilter does to a workspace of such a type.\<close>

definition prefilter_events :: "(event \<Rightarrow> bool) \<Rightarrow> bool \<Rightarrow> bool" where
  "prefilter_events G allow_float32 =
     (benign G \<and>
      (\<forall>t. working_dtype allow_float32 t \<longrightarrow> G (ScaleInPlace t)) \<and>
      (\<forall>t ax m ord. working_dtype allow_float32 t \<longrightarrow> G (SplineKernel t ax m ord)))"

text \<open>The array a sampling kernel reads its data from.\<close>

fun sampled_array :: "event \<Rightarrow> ndarray option" where
  "sampled_array (MapKernel f c r m cv ord io li) = Some f"
| "sampled_array (ShiftKernel f v r m cv ord io li) = Some f"
| "sampled_array (ZoomKernel f v r m ord io li) = Some f"
| "sampled_array (ZoomShiftKernel f off mat r m cv ord io li) = Some f"
| "sampled_array (AffineKernel f mat off cvt r m cv ord io li) = Some f"
| "sampled_array _ = None"

text \<open>The exceptions raised by the transforms after their first checks.\<close>

definition late_errors :: "exc set" where
  "late_errors =
     {ValueError ''coordinates should have floating point dtype'',
      IndexError ''tuple index out of range'',
      IndexError ''index -1 is out of bounds for axis 1 with size 0'',
      ValueError ''operands could not be broadcast together'',
      ValueError ''invalid rotation plane specified'',
      ValueError ''shift must be 1d'',
      ValueError ''len(shift) must equal input.ndim'',
      ValueError ''len(zoom) must equal input.ndim''}"

text \<open>\<open>G\<close> allows a sampling kernel on any array that satisfies \<open>P\<close>.\<close>

definition sampling_events :: "(event \<Rightarrow> bool) \<Rightarrow> (ndarray \<Rightarrow> bool) \<Rightarrow> bool" where
  "sampling_events G P = (\<forall>e f. sampled_array e = Some f \<longrightarrow> P f \<longrightarrow> G e)"

text \<open>
  What the conversion of lines 351 and 352 leaves: an array of type float32 when the input
  was of integer or unsigned kind.
\<close>

definition from_input :: "ndarray \<Rightarrow> ndarray \<Rightarrow> bool" where
  "from_input input f = (integer_kind (dtype input) \<longrightarrow> dtype f = Float32)"

subsection \<open>Notions of the statements, and example inputs\<close>

text \<open>The two ways in which the module reports a spline order that it does not support.\<close>

definition invalid_order :: "exc \<Rightarrow> bool" where
  "invalid_order e =
     (e = ValueError ''spline order is not supported''
      \<or> e = RuntimeError ''spline order not supported'')"

text \<open>The report of an unknown boundary mode.\<close>

definition invalid_mode :: exc where
  "invalid_mode = ValueError ''boundary mode is not supported''"

text \<open>The device operations a run added to the trace.\<close>

definition new_events :: "pstate \<Rightarrow> pstate \<Rightarrow> event list" where
  "new_events s s' = drop (length (trace s)) (trace s')"

text \<open>
  Inputs for the examples: a C-contiguous 4 by 4 array in the allocation \<open>0\<close>, and a
  state in which the identifiers below \<open>10\<close> are taken and nothing has run yet.
\<close>

definition image44 :: "dtype \<Rightarrow> ndarray" where
  "image44 d =
     \<lparr>obj_id = 0, base = 0, lo_byte = 0, hi_byte = 16 * itemsize d, shape = [4, 4],
      dtype = d, c_contiguous = True, c_order = True\<rparr>"

definition start :: pstate where
  "start = \<lparr>next_id = 10, trace = []\<rparr>"

text \<open>The array a prefilter operation changes in place.\<close>

fun mutated :: "event \<Rightarrow> ndarray option" where
  "mutated (ScaleInPlace t) = Some t"
| "mutated (SplineKernel t ax m ord) = Some t"
| "mutated _ = None"

text \<open>A second array object over the memory of the 4 by 4 example: a view of it.\<close>

definition view44 :: "dtype \<Rightarrow> ndarray" where
  "view44 d = (image44 d)\<lparr>obj_id := 1\<rparr>"






text \<open>
  What the prefilter changes in place is held in double precision: 8 bytes for each real
  component, the widest floating-point type there is.
\<close>

definition double_workspace :: "event \<Rightarrow> bool" where
  "double_workspace e = (\<forall>t. mutated e = Some t \<longrightarrow> float_bytes (dtype t) = 8)"

text \<open>The element type of the array a call returned.\<close>

definition dtype_of_result :: "exc + ndarray \<Rightarrow> dtype option" where
  "dtype_of_result r = (case r of Inl e \<Rightarrow> None | Inr a \<Rightarrow> Some (dtype a))"

text \<open>The axes along which the prefilter kernel was launched, in the order of a trace.\<close>

fun spline_axis :: "event \<Rightarrow> nat option" where
  "spline_axis (SplineKernel t ax m ord) = Some ax"
| "spline_axis _ = None"

definition prefilter_launches :: "event list \<Rightarrow> nat list" where
  "prefilter_launches tr = List.map_filter spline_axis tr"






subsection \<open>Rules for the basic operations\<close>

lemma stepsD:
  "steps m G Q E \<Longrightarrow> m s = (r, s') \<Longrightarrow>
     (\<exists>evs. trace s' = trace s @ evs \<and> (\<forall>e \<in> set evs. G e)) \<and>
     (case r of Inl e \<Rightarrow> E e | Inr x \<Rightarrow> Q x)"
  unfolding steps_def by blast

lemma steps_ok: "Q x \<Longrightarrow> steps (ok x) G Q E"
  by (simp add: steps_def ok_def)

lemma steps_throw: "E e \<Longrightarrow> steps (throw e) G Q E"
  by (simp add: steps_def throw_def)

lemma steps_emit: "G ev \<Longrightarrow> Q () \<Longrightarrow> steps (emit ev) G Q E"
  by (auto simp: steps_def emit_def)

lemma steps_and_then:
  assumes m: "steps m G R E" and f: "\<And>x. R x \<Longrightarrow> steps (f x) G Q E"
  shows "steps (and_then m f) G Q E"
  unfolding steps_def
proof (intro allI impI)
  fix s r s'
  assume run: "and_then m f s = (r, s')"
  obtain r1 s1 where m1: "m s = (r1, s1)" by (cases "m s")
  from stepsD[OF m m1] obtain evs1 where
    t1: "trace s1 = trace s @ evs1" and g1: "\<forall>e \<in> set evs1. G e"
    and q1: "case r1 of Inl e \<Rightarrow> E e | Inr x \<Rightarrow> R x"
    by blast
  show "(\<exists>evs. trace s' = trace s @ evs \<and> (\<forall>e \<in> set evs. G e)) \<and>
        (case r of Inl e \<Rightarrow> E e | Inr x \<Rightarrow> Q x)"
  proof (cases r1)
    case (Inl e)
    with run m1 have "r = Inl e" "s' = s1" by (simp_all add: and_then_def)
    with t1 g1 q1 Inl show ?thesis by auto
  next
    case (Inr x)
    with q1 have "R x" by simp
    note st = f[OF this]
    from run m1 Inr have f1: "f x s1 = (r, s')" by (simp add: and_then_def)
    from stepsD[OF st f1] obtain evs2 where
      t2: "trace s' = trace s1 @ evs2" and g2: "\<forall>e \<in> set evs2. G e"
      and q2: "case r of Inl e \<Rightarrow> E e | Inr y \<Rightarrow> Q y"
      by blast
    from t1 t2 have "trace s' = trace s @ (evs1 @ evs2)" by simp
    moreover from g1 g2 have "\<forall>e \<in> set (evs1 @ evs2). G e" by auto
    ultimately show ?thesis using q2 by blast
  qed
qed

lemma steps_weaken:
  assumes "steps m G Q E" and "\<And>e. G e \<Longrightarrow> G' e" and "\<And>x. Q x \<Longrightarrow> Q' x" and "\<And>e. E e \<Longrightarrow> E' e"
  shows "steps m G' Q' E'"
  unfolding steps_def
proof (intro allI impI)
  fix s r s'
  assume run: "m s = (r, s')"
  from stepsD[OF assms(1) run] obtain evs where
    t: "trace s' = trace s @ evs" and g: "\<forall>e \<in> set evs. G e"
    and q: "case r of Inl e \<Rightarrow> E e | Inr x \<Rightarrow> Q x" by blast
  from g assms(2) have "\<forall>e \<in> set evs. G' e" by blast
  moreover from q assms(3,4) have "case r of Inl e \<Rightarrow> E' e | Inr x \<Rightarrow> Q' x"
    by (cases r) auto
  ultimately show "(\<exists>evs. trace s' = trace s @ evs \<and> (\<forall>e \<in> set evs. G' e)) \<and>
        (case r of Inl e \<Rightarrow> E' e | Inr x \<Rightarrow> Q' x)" using t by blast
qed

lemma steps_new_array:
  assumes "benign G"
    and "\<And>a. shape a = shp \<Longrightarrow> dtype a = d \<Longrightarrow> c_contiguous a \<Longrightarrow> Q a"
  shows "steps (new_array shp d) G Q E"
  using assms by (auto simp: steps_def new_array_def Let_def benign_def)

lemma steps_emit_assign: "benign G \<Longrightarrow> Q () \<Longrightarrow> steps (emit (Assign a b)) G Q E"
  by (rule steps_emit) (simp_all add: benign_def)

lemma steps_copy:
  assumes "benign G"
    and "\<And>b. shape b = shape a \<Longrightarrow> dtype b = d \<Longrightarrow> Q (f b)"
  shows "steps (and_then (new_array (shape a) d)
                  (\<lambda>b. and_then (emit (Assign b a)) (\<lambda>_. ok (f b)))) G Q E"
  by (rule steps_and_then[where R = "\<lambda>b. shape b = shape a \<and> dtype b = d \<and> c_contiguous b"])
     (auto intro!: steps_new_array steps_and_then[where R = "\<lambda>_. True"] steps_emit_assign
        steps_ok assms)

lemma steps_astype:
  assumes "benign G" and "\<And>b. shape b = shape a \<Longrightarrow> dtype b = d \<Longrightarrow> Q b"
  shows "steps (astype a d) G Q E"
  unfolding astype_def by (rule steps_copy) (auto intro: assms)

lemma steps_astype_nocopy:
  assumes "benign G" and "\<And>b. shape b = shape a \<Longrightarrow> dtype b = d \<Longrightarrow> Q b"
  shows "steps (astype_nocopy a d) G Q E"
  unfolding astype_nocopy_def
  by (auto intro!: steps_ok steps_copy assms)

lemma steps_ascontiguousarray:
  assumes "benign G"
    and "\<And>b. shape b = shape a \<Longrightarrow> dtype b = dtype a \<Longrightarrow> c_contiguous b \<Longrightarrow> Q b"
  shows "steps (ascontiguousarray a) G Q E"
  unfolding ascontiguousarray_def
  apply (auto intro!: steps_ok assms)
  apply (rule steps_and_then[where R = "\<lambda>b. shape b = shape a \<and> dtype b = dtype a \<and> c_contiguous b"])
   apply (auto intro!: steps_new_array steps_and_then[where R = "\<lambda>_. True"] steps_emit_assign
        steps_ok assms)
  done

lemma steps_copy_array:
  assumes "benign G"
    and "\<And>b. shape b = shape a \<Longrightarrow> dtype b = dtype a \<Longrightarrow> c_contiguous b \<Longrightarrow> Q b"
  shows "steps (copy_array a) G Q E"
  unfolding copy_array_def
  apply (rule steps_and_then[where R = "\<lambda>b. shape b = shape a \<and> dtype b = dtype a \<and> c_contiguous b"])
   apply (auto intro!: steps_new_array steps_and_then[where R = "\<lambda>_. True"] steps_emit_assign
        steps_ok assms)
  done

lemma steps_assign:
  assumes "benign G" and "Q ()" and "\<And>e. e \<in> data_errors \<Longrightarrow> E e"
  shows "steps (assign dst src) G Q E"
  unfolding assign_def
  by (auto intro!: steps_emit_assign steps_throw assms simp: data_errors_def)

lemma steps_zeros:
  assumes "benign G" and "\<And>e. e \<in> data_errors \<Longrightarrow> E e"
    and "\<And>a. map int (shape a) = shp \<Longrightarrow> dtype a = d \<Longrightarrow> c_contiguous a \<Longrightarrow> Q a"
  shows "steps (zeros shp d) G Q E"
  unfolding zeros_def
  apply (auto intro!: steps_throw assms(2) simp: data_errors_def)
  apply (rule steps_new_array[OF assms(1)])
  apply (rule assms(3))
    apply (auto simp: comp_def intro!: map_idI)
  done

lemma steps_get_output:
  assumes "benign G" and "\<And>e. e \<in> data_errors \<Longrightarrow> E e"
    and "\<And>a. map int (shape a) = (case sh of None \<Rightarrow> map int (shape input) | Some x \<Rightarrow> x)
            \<Longrightarrow> dtype a = (case out_arg of OutArray o1 \<Rightarrow> dtype o1 | OutDtype d \<Rightarrow> d
                            | OutNone \<Rightarrow> dtype input) \<Longrightarrow> Q a"
  shows "steps (get_output out_arg input sh) G Q E"
  unfolding get_output_def Let_def
  by (cases out_arg)
     (auto intro!: steps_ok steps_throw steps_zeros assms simp: data_errors_def)

lemma steps_workspace:
  assumes "benign G"
    and "\<And>temp. dtype temp = fd \<Longrightarrow> shape temp = shape input \<Longrightarrow> c_contiguous temp
            \<Longrightarrow> Q (temp, fd, od)"
  shows "steps (and_then (astype_nocopy input fd)
             (\<lambda>t1. and_then (ascontiguousarray t1)
                (\<lambda>t2. and_then
                         (if shares_memory t2 input then copy_array t2 else ok t2)
                         (\<lambda>temp. ok (temp, fd, od))))) G Q E"
proof -
  let ?R = "\<lambda>b. shape b = shape input \<and> dtype b = fd"
  let ?C = "\<lambda>b. shape b = shape input \<and> dtype b = fd \<and> c_contiguous b"
  have a: "steps (astype_nocopy input fd) G ?R E"
    by (rule steps_astype_nocopy[OF assms(1)]) simp
  have b: "steps (ascontiguousarray t1) G ?C E" if "?R t1" for t1
    using that by (intro steps_ascontiguousarray[OF assms(1)]) simp
  have c: "steps (if shares_memory t2 input then copy_array t2 else ok t2) G ?C E"
    if "?C t2" for t2
    using that by (auto intro!: steps_copy_array[OF assms(1)] steps_ok)
  have d: "steps (ok (temp, fd, od)) G Q E" if "?C temp" for temp
    using that by (intro steps_ok assms(2)) simp_all
  show ?thesis
    apply (rule steps_and_then[where R = ?R], rule a)
    apply (rule steps_and_then[where R = ?C], erule b)
    apply (rule steps_and_then[where R = ?C], erule c)
    apply (erule d)
    done
qed

lemma steps_get_spline_output:
  assumes "benign G" and "\<And>e. e \<in> data_errors \<Longrightarrow> E e"
    and "\<And>temp fd od.
           dtype temp = fd \<Longrightarrow> c_contiguous temp \<Longrightarrow> working_dtype allow_float32 temp \<Longrightarrow>
           od = (case out_arg of OutArray o1 \<Rightarrow> dtype o1 | OutDtype d \<Rightarrow> d
                 | OutNone \<Rightarrow> dtype input) \<Longrightarrow>
           (shape temp = shape input \<or> out_arg = OutArray temp) \<Longrightarrow> Q (temp, fd, od)"
  shows "steps (get_spline_output input out_arg allow_float32) G Q E"
proof (cases out_arg)
  case (OutArray out)
  let ?fd = "promote_types (dtype out) (min_float_dtype input allow_float32)"
  have err: "steps (throw (ValueError ''output must have complex dtype for complex inputs'')) G Q E"
    by (rule steps_throw, rule assms(2)) (simp add: data_errors_def)
  have inplace: "steps (and_then
                    (if obj_id out \<noteq> obj_id input then assign out input else ok ())
                    (\<lambda>_. ok (out, ?fd, dtype out))) G Q E"
    if "dtype out = ?fd" "c_contiguous out"
    apply (rule steps_and_then[where R = "\<lambda>_. True"])
     apply (cases "obj_id out \<noteq> obj_id input")
      apply (simp, rule steps_assign[OF assms(1)], simp, erule assms(2))
     apply (simp, rule steps_ok, simp)
    apply (rule steps_ok, rule assms(3))
    using that apply (auto simp: working_dtype_def OutArray)
    done
  have ws: "steps (and_then (astype_nocopy input ?fd)
             (\<lambda>t1. and_then (ascontiguousarray t1)
                (\<lambda>t2. and_then
                         (if shares_memory t2 input then copy_array t2 else ok t2)
                         (\<lambda>temp. ok (temp, ?fd, dtype out))))) G Q E"
    by (rule steps_workspace[OF assms(1)], rule assms(3))
       (auto simp: working_dtype_def OutArray)
  show ?thesis
    unfolding get_spline_output_def Let_def OutArray output_arg.case
    using err inplace ws by (simp split: if_split)
next
  case (OutDtype d)
  show ?thesis
    unfolding get_spline_output_def Let_def OutDtype output_arg.case
    by (rule steps_workspace[OF assms(1)], rule assms(3))
       (auto simp: working_dtype_def OutDtype)
next
  case OutNone
  show ?thesis
    unfolding get_spline_output_def Let_def OutNone output_arg.case
    by (rule steps_workspace[OF assms(1)], rule assms(3))
       (auto simp: working_dtype_def OutNone)
qed

subsection \<open>Rules for the spline prefilter\<close>

lemma prefilter_events_benign: "prefilter_events G af \<Longrightarrow> benign G"
  by (simp add: prefilter_events_def)

lemma steps_normalize_axis_index:
  assumes "\<And>e. e \<in> data_errors \<Longrightarrow> E e" and "\<And>ax. Q ax"
  shows "steps (normalize_axis_index axis n) G Q E"
  unfolding normalize_axis_index_def
  by (auto intro!: steps_ok steps_throw assms simp: data_errors_def)

lemma steps_spline_filter1d_at:
  assumes G: "prefilter_events G allow_float32"
    and E: "\<And>e. e \<in> data_errors \<Longrightarrow> E e"
  shows "steps (spline_filter1d_at x order axis out_arg mode allow_float32) G (\<lambda>_. True) E"
proof -
  note b = prefilter_events_benign[OF G]
  have pass: "steps (and_then (get_output out_arg x None)
             (\<lambda>out. and_then (assign out x) (\<lambda>_. ok out))) G (\<lambda>_. True) E"
    apply (rule steps_and_then[where R = "\<lambda>_. True"])
     apply (rule steps_get_output[OF b], erule E, simp)
    apply (rule steps_and_then[where R = "\<lambda>_. True"])
     apply (rule steps_assign[OF b], simp, erule E)
    apply (rule steps_ok, simp)
    done
  have fin: "steps (case out_arg of
                      OutArray out \<Rightarrow>
                        if obj_id temp \<noteq> obj_id out
                        then and_then (assign out temp) (\<lambda>_. ok out)
                        else astype_nocopy temp od
                    | _ \<Rightarrow> astype_nocopy temp od) G (\<lambda>_. True) E" for temp od
    by (cases out_arg)
       (auto intro!: steps_astype_nocopy[OF b] steps_and_then[where R = "\<lambda>_. True"]
          steps_assign[OF b] steps_ok E)
  have kern: "steps (and_then (get_spline_output x out_arg allow_float32)
             (\<lambda>(temp, data_dtype, output_dtype).
                if shape x ! axis = 0
                then throw (ZeroDivisionError ''integer division or modulo by zero'')
                else
                and_then (emit (ScaleInPlace temp))
                  (\<lambda>_. and_then (emit (SplineKernel temp axis mode order))
                     (\<lambda>_. case out_arg of
                             OutArray out \<Rightarrow>
                               if obj_id temp \<noteq> obj_id out
                               then and_then (assign out temp) (\<lambda>_. ok out)
                               else astype_nocopy temp output_dtype
                           | _ \<Rightarrow> astype_nocopy temp output_dtype)))) G (\<lambda>_. True) E"
    apply (rule steps_and_then[where R = "\<lambda>(temp, fd, od). working_dtype allow_float32 temp"])
     apply (rule steps_get_spline_output[OF b], erule E, simp)
    apply (clarsimp)
    apply (intro conjI impI)
     apply (rule steps_throw, rule E, simp add: data_errors_def)
    apply (rule steps_and_then[where R = "\<lambda>_. True"])
     apply (rule steps_emit)
    using G apply (simp add: prefilter_events_def)
     apply simp
    apply (rule steps_and_then[where R = "\<lambda>_. True"])
     apply (rule steps_emit)
    using G apply (simp add: prefilter_events_def)
     apply simp
    apply (rule fin)
    done
  show ?thesis
    unfolding spline_filter1d_at_def Let_def
    using pass kern by (simp split: if_split)
qed

lemma steps_spline_filter1d:
  assumes G: "prefilter_events G allow_float32"
    and E: "\<And>e. e \<in> data_errors \<Longrightarrow> E e"
    and O: "order < 0 \<or> 5 < order \<Longrightarrow> E (RuntimeError ''spline order not supported'')"
  shows "steps (spline_filter1d x order axis out_arg mode allow_float32) G (\<lambda>_. True) E"
  unfolding spline_filter1d_def
  apply (cases "order < 0 \<or> 5 < order")
   apply (simp, rule steps_throw, rule O, simp)
  apply simp
  apply (rule steps_and_then[where R = "\<lambda>_. True"])
   apply (rule steps_normalize_axis_index, erule E, simp)
  apply (rule steps_spline_filter1d_at[OF G], erule E)
  done

lemma steps_spline_filter_axes:
  assumes G: "prefilter_events G allow_float32"
    and E: "\<And>e. e \<in> data_errors \<Longrightarrow> E e"
    and O: "0 \<le> order" "order \<le> 5"
  shows "steps (spline_filter_axes x temp order axes mode allow_float32) G (\<lambda>_. True) E"
proof (induction axes arbitrary: x)
  case Nil
  show ?case by (simp, rule steps_ok, simp)
next
  case (Cons a axes)
  show ?case
    apply simp
    apply (rule steps_and_then[where R = "\<lambda>_. True"])
     apply (rule steps_spline_filter1d[OF G], erule E)
    using O apply simp
    apply (rule Cons.IH)
    done
qed

lemma steps_spline_filter:
  assumes G: "prefilter_events G allow_float32"
    and E: "\<And>e. e \<in> data_errors \<Longrightarrow> E e"
    and O: "order < 2 \<or> 5 < order \<Longrightarrow> E (RuntimeError ''spline order not supported'')"
    and Q: "\<And>r. dtype r = (case out_arg of OutArray o1 \<Rightarrow> dtype o1 | OutDtype d \<Rightarrow> d
                 | OutNone \<Rightarrow> dtype input) \<Longrightarrow> Q r"
  shows "steps (spline_filter input order out_arg mode allow_float32) G Q E"
proof (cases "order < 2 \<or> 5 < order")
  case True
  then show ?thesis
    unfolding spline_filter_def by (simp, intro steps_throw O) simp
next
  case False
  note b = prefilter_events_benign[OF G]
  let ?od = "case out_arg of OutArray o1 \<Rightarrow> dtype o1 | OutDtype d \<Rightarrow> d
                 | OutNone \<Rightarrow> dtype input"
  have loop: "steps (if order \<notin> {0, 1} \<and> ndim input > 0
                   then spline_filter_axes input temp order [0 ..< ndim input] mode
                          allow_float32
                   else ok ()) G (\<lambda>_. True) E" for temp
    using False by (auto intro!: steps_spline_filter_axes[OF G] steps_ok E)
  have res: "steps (case out_arg of
                             OutArray out \<Rightarrow>
                               and_then (assign out temp) (\<lambda>_. ok out)
                           | _ \<Rightarrow> ok temp) G (\<lambda>_. True) E" for temp
    by (cases out_arg)
       (auto intro!: steps_and_then[where R = "\<lambda>_. True"] steps_assign[OF b] steps_ok E)
  have fin: "steps (if dtype res \<noteq> od then astype res od else ok res) G Q E"
    if "od = ?od" for res od
    using that by (auto intro!: steps_astype[OF b] steps_ok Q)
  have body: "steps (and_then
                  (if order \<notin> {0, 1} \<and> ndim input > 0
                   then spline_filter_axes input temp order [0 ..< ndim input] mode
                          allow_float32
                   else ok ())
                  (\<lambda>_. and_then
                          (case out_arg of
                             OutArray out \<Rightarrow>
                               and_then (assign out temp) (\<lambda>_. ok out)
                           | _ \<Rightarrow> ok temp)
                          (\<lambda>res. if dtype res \<noteq> od
                                  then astype res od
                                  else ok res))) G Q E"
    if "od = ?od" for temp od
    apply (rule steps_and_then[where R = "\<lambda>_. True"], rule loop)
    apply (rule steps_and_then[where R = "\<lambda>_. True"], rule res)
    apply (rule fin, rule that)
    done
  show ?thesis
    unfolding spline_filter_def
    apply (simp only: False if_False)
    apply (rule steps_and_then[where R = "\<lambda>(temp, fd, od). od = ?od"])
     apply (rule steps_get_spline_output[OF b], erule E, simp)
    apply (simp only: split_paired_all prod.case)
    apply (rule body[OF refl])
    done
qed

lemma steps_prefiltered:
  assumes G: "prefilter_events G allow_float32"
    and E: "\<And>e. e \<in> data_errors \<Longrightarrow> E e"
    and O: "order \<le> 5"
    and Q: "\<And>r. dtype r = dtype input \<Longrightarrow> Q r"
  shows "steps (prefiltered input order mode prefilter allow_float32) G Q E"
proof (cases "prefilter \<and> 1 < order")
  case False
  then show ?thesis
    unfolding prefiltered_def by (auto intro!: steps_ok Q)
next
  case True
  then show ?thesis
    unfolding prefiltered_def
    using O by (simp, intro steps_spline_filter[OF G] E Q) auto
qed

subsection \<open>Rules for the transforms\<close>

lemma steps_check_parameter:
  assumes "order < 0 \<or> 5 < order \<Longrightarrow> E (ValueError ''spline order is not supported'')"
    and "0 \<le> order \<Longrightarrow> order \<le> 5 \<Longrightarrow> mode \<notin> set known_modes
           \<Longrightarrow> E (ValueError ''boundary mode is not supported'')"
    and "0 \<le> order \<Longrightarrow> order \<le> 5 \<Longrightarrow> mode \<in> set known_modes \<Longrightarrow> Q ()"
  shows "steps (check_parameter func_name order mode) G Q E"
  unfolding check_parameter_def
  using assms by (auto intro!: steps_throw steps_ok)

lemma steps_integer_to_float32:
  assumes "benign G" and "\<And>r. from_input input r \<Longrightarrow> (\<not> integer_kind (dtype input) \<longrightarrow> r = input) \<Longrightarrow> shape r = shape input \<Longrightarrow> Q r"
  shows "steps (integer_to_float32 input) G Q E"
  unfolding integer_to_float32_def
  by (auto intro!: steps_astype[OF assms(1)] steps_ok assms(2) simp: from_input_def)

text \<open>The common tail: prefilter, make contiguous, then continue.\<close>

lemma steps_prepare:
  assumes G: "prefilter_events G allow_float32"
    and E: "\<And>e. e \<in> data_errors \<Longrightarrow> E e"
    and O: "order \<le> 5"
    and k: "\<And>input filtered. from_input input0 filtered \<Longrightarrow> shape input = shape input0
              \<Longrightarrow> steps (k input filtered) G Q E"
  shows "steps (and_then (integer_to_float32 input0)
               (\<lambda>input. and_then (prefiltered input order mode prefilter allow_float32)
                  (\<lambda>filtered0. and_then (ascontiguousarray filtered0)
                     (\<lambda>filtered. k input filtered)))) G Q E"
proof -
  note b = prefilter_events_benign[OF G]
  show ?thesis
    apply (rule steps_and_then[where R = "\<lambda>r. from_input input0 r \<and> shape r = shape input0"])
     apply (rule steps_integer_to_float32[OF b], simp)
    apply (rule steps_and_then[where R = "\<lambda>r. from_input input0 r"])
     apply (rule steps_prefiltered[OF G], erule E, rule O)
     apply (simp add: from_input_def)
    apply (rule steps_and_then[where R = "\<lambda>r. from_input input0 r"])
     apply (rule steps_ascontiguousarray[OF b])
     apply (simp add: from_input_def)
    apply (rule k, simp_all)
    done
qed

lemma steps_convert_coordinates:
  assumes "benign G" and "\<And>e. e \<in> late_errors \<Longrightarrow> E e"
  shows "steps (convert_coordinates c order af) G (\<lambda>_. True) E"
  unfolding convert_coordinates_def
  by (auto intro!: steps_astype[OF assms(1)] steps_astype_nocopy[OF assms(1)] steps_ok
        steps_throw assms(2) simp: late_errors_def)

lemma steps_map_coordinates:
  assumes G: "prefilter_events G allow_float32"
    and S: "sampling_events G (from_input input0)"
    and E1: "\<And>e. e \<in> data_errors \<Longrightarrow> E e"
    and E2: "\<And>e. e \<in> late_errors \<Longrightarrow> E e"
    and Eo: "order < 0 \<or> 5 < order \<Longrightarrow> E (ValueError ''spline order is not supported'')"
    and Em: "0 \<le> order \<Longrightarrow> order \<le> 5 \<Longrightarrow> mode0 \<notin> set known_modes
           \<Longrightarrow> E (ValueError ''boundary mode is not supported'')"
  shows "steps (map_coordinates input0 coordinates0 out_arg order mode0 cval prefilter
            allow_float32) G (\<lambda>_. True) E"
proof -
  note b = prefilter_events_benign[OF G]
  have pad: "steps
          (if mode0 = ''opencv'' \<or> mode0 = ''_opencv_edge''
           then and_then (new_array (map (\<lambda>n. n + 2) (shape input0)) (dtype input0))
                  (\<lambda>padded. and_then (emit (Assign padded input0))
                     (\<lambda>_. and_then
                             (new_array (shape coordinates0)
                                (add_one_dtype (dtype coordinates0)))
                             (\<lambda>shifted. and_then (emit (Assign shifted coordinates0))
                                (\<lambda>_. ok (padded, shifted, ''constant'')))))
           else ok (input0, coordinates0, mode0))
          G (\<lambda>(i1, c1, m). dtype i1 = dtype input0) E"
    apply (cases "mode0 = ''opencv'' \<or> mode0 = ''_opencv_edge''")
     apply (subst if_P, assumption)
     apply (rule steps_and_then[where R = "\<lambda>p. dtype p = dtype input0"])
      apply (rule steps_new_array[OF b], simp)
     apply (rule steps_and_then[where R = "\<lambda>_. True"])
      apply (rule steps_emit_assign[OF b], simp)
     apply (rule steps_and_then[where R = "\<lambda>_. True"])
      apply (rule steps_new_array[OF b], simp)
     apply (rule steps_and_then[where R = "\<lambda>_. True"])
      apply (rule steps_emit_assign[OF b], simp)
     apply (rule steps_ok, simp)
    apply (subst if_not_P, assumption)
    apply (rule steps_ok, simp)
    done
  have tail: "steps (if shape coordinates2 = []
                     then throw (IndexError ''tuple index out of range'')
                     else and_then (ascontiguousarray filtered0)
                       (\<lambda>filtered. and_then (ascontiguousarray coordinates2)
                          (\<lambda>coordinates.
                             and_then
                               (emit (MapKernel filtered coordinates ret mode cval
                                  order (integer_kind (dtype ret))
                                  (max (py_prod (map int (shape input)))
                                     (int (hd (shape coordinates2))) > two31)))
                               (\<lambda>_. ok ret)))) G (\<lambda>_. True) E"
    if "from_input input0 filtered0" for coordinates2 filtered0 ret mode input
    apply (cases "shape coordinates2 = []")
     apply (subst if_P, assumption)
     apply (rule steps_throw, rule E2, simp add: late_errors_def)
    apply (subst if_not_P, assumption)
    apply (rule steps_and_then[where R = "\<lambda>r. from_input input0 r"])
     apply (rule steps_ascontiguousarray[OF b])
    using that apply (simp add: from_input_def)
    apply (rule steps_and_then[where R = "\<lambda>_. True"])
     apply (rule steps_ascontiguousarray[OF b], simp)
    apply (rule steps_and_then[where R = "\<lambda>_. True"])
     apply (rule steps_emit)
    using S apply (simp add: sampling_events_def)
     apply simp
    apply (rule steps_ok, simp)
    done
  have body: "steps
             (and_then (get_output out_arg input1 (Some (map int (tl (shape coordinates1)))))
               (\<lambda>ret. and_then (integer_to_float32 input1)
                  (\<lambda>input. and_then (convert_coordinates coordinates1 order allow_float32)
                     (\<lambda>coordinates2.
                        and_then (prefiltered input order mode prefilter allow_float32)
                          (\<lambda>filtered0.
                             if shape coordinates2 = []
                             then throw (IndexError ''tuple index out of range'')
                             else and_then (ascontiguousarray filtered0)
                               (\<lambda>filtered. and_then (ascontiguousarray coordinates2)
                                  (\<lambda>coordinates.
                                     and_then
                                       (emit (MapKernel filtered coordinates ret mode cval
                                          order (integer_kind (dtype ret))
                                          (max (py_prod (map int (shape input)))
                                             (int (hd (shape coordinates2))) > two31)))
                                       (\<lambda>_. ok ret)))))))) G (\<lambda>_. True) E"
    if "dtype input1 = dtype input0" "order \<le> 5" for input1 coordinates1 mode
    apply (rule steps_and_then[where R = "\<lambda>_. True"])
     apply (rule steps_get_output[OF b], erule E1, simp)
    apply (rule steps_and_then[where R = "\<lambda>r. from_input input0 r"])
     apply (rule steps_integer_to_float32[OF b])
    using that(1) apply (simp add: from_input_def)
    apply (rule steps_and_then[where R = "\<lambda>_. True"])
     apply (rule steps_convert_coordinates[OF b], erule E2)
    apply (rule steps_and_then[where R = "\<lambda>r. from_input input0 r"])
     apply (rule steps_prefiltered[OF G], erule E1, rule that(2))
     apply (simp add: from_input_def)
    apply (erule tail)
    done
  show ?thesis
    unfolding map_coordinates_def
    apply (rule steps_and_then[where R = "\<lambda>_. order \<le> 5"])
     apply (rule steps_check_parameter, erule Eo, erule (2) Em, assumption)
    apply (rule steps_and_then[where R = "\<lambda>(i1, c1, m). dtype i1 = dtype input0"])
     apply (rule pad)
    apply (simp only: split_paired_all prod.case)
    apply (rule body, assumption+)
    done
qed

lemma steps_split_matrix:
  assumes "\<And>e. e \<in> late_errors \<Longrightarrow> E e"
  shows "steps (split_matrix n matrix offset) G (\<lambda>_. True) E"
  unfolding split_matrix_def
  by (cases matrix) (auto intro!: steps_ok steps_throw assms simp: late_errors_def)

lemma steps_affine_transform:
  assumes G: "prefilter_events G allow_float32"
    and S: "sampling_events G (from_input input0)"
    and E1: "\<And>e. e \<in> data_errors \<Longrightarrow> E e"
    and E2: "\<And>e. e \<in> late_errors \<Longrightarrow> E e"
    and Eo: "order < 0 \<or> 5 < order \<Longrightarrow> E (ValueError ''spline order is not supported'')"
    and Em: "0 \<le> order \<Longrightarrow> order \<le> 5 \<Longrightarrow> mode \<notin> set known_modes
           \<Longrightarrow> E (ValueError ''boundary mode is not supported'')"
    and Ea: "0 \<le> order \<Longrightarrow> order \<le> 5 \<Longrightarrow> mode \<in> set known_modes
           \<Longrightarrow> fa_ndim matrix0 \<notin> {1, 2}
           \<Longrightarrow> E (RuntimeError ''no proper affine matrix provided'')"
  shows "steps (affine_transform input0 matrix0 offset_arg output_shape_opt out_arg order
            mode cval prefilter allow_float32) G (\<lambda>_. True) E"
proof -
  note b = prefilter_events_benign[OF G]
  have kern: "steps
       (let integer_output = integer_kind (dtype out);
            large_int =
              (max (py_prod (map int (shape input)))
                 (py_prod output_shape) > two31) in
        if fa_ndim matrix = 1 \<and> \<not> opencv
        then
          (if \<not> broadcast_compatible (fa_shape offset)
                  (fa_shape matrix)
           then throw
             (ValueError ''operands could not be broadcast together'')
           else and_then
             (emit (ZoomShiftKernel filtered offset matrix out mode
                cval order integer_output large_int))
             (\<lambda>_. ok out))
        else
          (if \<not> opencv
              \<and> \<not> (broadcast_to_ok (fa_shape matrix) [n, n]
                     \<and> broadcast_to_ok (fa_shape offset) [n])
           then throw
             (ValueError ''could not broadcast input array'')
           else and_then
             (emit (AffineKernel filtered matrix offset opencv out
                mode cval order integer_output large_int))
             (\<lambda>_. ok out))) G (\<lambda>_. True) E"
    if "from_input input0 filtered" for out input output_shape matrix opencv offset filtered n
  proof -
    have zs: "G (ZoomShiftKernel filtered offset matrix out mode cval order io li)" for io li
      using S that by (simp add: sampling_events_def)
    have af: "G (AffineKernel filtered matrix offset cvt out mode cval order io li)" for cvt io li
      using S that by (simp add: sampling_events_def)
    have e1: "E (ValueError ''operands could not be broadcast together'')"
      by (rule E2) (simp add: late_errors_def)
    have e2: "E (ValueError ''could not broadcast input array'')"
      by (rule E1) (simp add: data_errors_def)
    show ?thesis
      unfolding Let_def
      by (auto intro!: steps_throw e1 e2 steps_and_then[where R = "\<lambda>_. True"] steps_emit
            zs af steps_ok)
  qed
  have body: "steps
     (let opencv = (mode = ''opencv'') in
               if opencv \<and> \<not> (broadcast_to_ok (fa_shape matrix) [n, n]
                                \<and> broadcast_to_ok (fa_shape offset) [n])
               then throw (ValueError ''could not broadcast input array'')
               else
                 let output_shape = (case output_shape_opt of
                                       None \<Rightarrow> map int (shape input0)
                                     | Some sh \<Rightarrow> sh) in
                 and_then (get_output out_arg input0 (Some output_shape))
                   (\<lambda>out. and_then (integer_to_float32 input0)
                      (\<lambda>input.
                         and_then (prefiltered input order mode prefilter allow_float32)
                           (\<lambda>filtered0. and_then (ascontiguousarray filtered0)
                              (\<lambda>filtered.
                                 let integer_output = integer_kind (dtype out);
                                     large_int =
                                       (max (py_prod (map int (shape input)))
                                          (py_prod output_shape) > two31) in
                                 if fa_ndim matrix = 1 \<and> \<not> opencv
                                 then
                                   (if \<not> broadcast_compatible (fa_shape offset)
                                           (fa_shape matrix)
                                    then throw
                                      (ValueError ''operands could not be broadcast together'')
                                    else and_then
                                      (emit (ZoomShiftKernel filtered offset matrix out mode
                                         cval order integer_output large_int))
                                      (\<lambda>_. ok out))
                                 else
                                   (if \<not> opencv
                                       \<and> \<not> (broadcast_to_ok (fa_shape matrix) [n, n]
                                              \<and> broadcast_to_ok (fa_shape offset) [n])
                                    then throw
                                      (ValueError ''could not broadcast input array'')
                                    else and_then
                                      (emit (AffineKernel filtered matrix offset opencv out
                                         mode cval order integer_output large_int))
                                      (\<lambda>_. ok out))))))) G (\<lambda>_. True) E"
    if O: "order \<le> 5" for matrix offset n
  proof -
    have e2: "E (ValueError ''could not broadcast input array'')"
      by (rule E1) (simp add: data_errors_def)
    have rest: "steps (and_then (get_output out_arg input0 (Some output_shape))
                   (\<lambda>out. and_then (integer_to_float32 input0)
                      (\<lambda>input.
                         and_then (prefiltered input order mode prefilter allow_float32)
                           (\<lambda>filtered0. and_then (ascontiguousarray filtered0)
                              (\<lambda>filtered. k out input filtered))))) G (\<lambda>_. True) E"
      if "\<And>out input filtered. from_input input0 filtered \<Longrightarrow>
             steps (k out input filtered) G (\<lambda>_. True) E" for output_shape k
      apply (rule steps_and_then[where R = "\<lambda>_. True"])
       apply (rule steps_get_output[OF b], erule E1, simp)
      apply (rule steps_prepare[OF G], erule E1, rule O)
      apply (erule that)
      done
    show ?thesis
      unfolding Let_def
      apply (cases "mode = ''opencv'' \<and> \<not> (broadcast_to_ok (fa_shape matrix) [n, n]
                                \<and> broadcast_to_ok (fa_shape offset) [n])")
       apply (subst if_P, assumption)
       apply (rule steps_throw, rule e2)
      apply (subst if_not_P, assumption)
      apply (rule rest)
      apply (rule kern[unfolded Let_def], assumption)
      done
  qed
  have after_check: "steps
      (let n = ndim input0;
                 offset0 = (case offset_arg of
                              PyScalar x \<Rightarrow> A1 (replicate n x)
                            | PyArr a \<Rightarrow> a) in
          if fa_ndim matrix0 \<notin> {1, 2}
          then throw (RuntimeError ''no proper affine matrix provided'')
          else and_then (split_matrix n matrix0 offset0) (\<lambda>(matrix, offset). k n matrix offset))
       G (\<lambda>_. True) E"
    if "0 \<le> order" "order \<le> 5" "mode \<in> set known_modes"
      and "\<And>n matrix offset. steps (k n matrix offset) G (\<lambda>_. True) E" for k
    unfolding Let_def
    apply (cases "fa_ndim matrix0 \<notin> {1, 2}")
     apply (subst if_P, assumption)
     apply (rule steps_throw, rule Ea, (rule that)+, assumption)
    apply (subst if_not_P, assumption)
    apply (rule steps_and_then[where R = "\<lambda>_. True"])
     apply (rule steps_split_matrix, erule E2)
    apply (simp only: split_paired_all prod.case)
    apply (rule that(4))
    done
  show ?thesis
    unfolding affine_transform_def
    apply (rule steps_and_then[where R = "\<lambda>_. 0 \<le> order \<and> order \<le> 5 \<and> mode \<in> set known_modes"])
     apply (rule steps_check_parameter, erule Eo, erule (2) Em, simp)
    apply (rule after_check, simp, simp, simp)
    apply (rule body, simp)
    done
qed

lemma steps_rotate:
  assumes G: "prefilter_events G allow_float32"
    and S: "sampling_events G (from_input input)"
    and E1: "\<And>e. e \<in> data_errors \<Longrightarrow> E e"
    and E2: "\<And>e. e \<in> late_errors \<Longrightarrow> E e"
    and Eo: "order < 0 \<or> 5 < order \<Longrightarrow> E (ValueError ''spline order is not supported'')"
    and Em: "0 \<le> order \<Longrightarrow> order \<le> 5 \<Longrightarrow> mode0 \<notin> set known_modes
           \<Longrightarrow> E (ValueError ''boundary mode is not supported'')"
  shows "steps (rotate input angle axes reshape out_arg order mode0 cval prefilter
            allow_float32) G (\<lambda>_. True) E"
proof -
  have inner: "steps
     (let mode = (if mode0 = ''opencv'' then ''_opencv_edge'' else mode0) in
          case rotation_axes (ndim input) axes of
            Inl e \<Rightarrow> throw e
          | Inr ax \<Rightarrow>
              (case rotate_params (shape input) angle ax reshape of
                 (matrix, offset, output_shape) \<Rightarrow>
                   affine_transform input (A2 (ndim input) matrix) (PyArr (A1 offset))
                     (Some output_shape) out_arg order mode cval prefilter allow_float32))
     G (\<lambda>_. True) E"
    if O: "0 \<le> order" "order \<le> 5" and M: "mode0 \<in> set known_modes"
  proof (cases "rotation_axes (ndim input) axes")
    case (Inl e)
    then have "e = ValueError ''invalid rotation plane specified''"
      by (auto simp: rotation_axes_def Let_def split: if_splits)
    then show ?thesis
      unfolding Let_def Inl sum.case
      by (intro steps_throw E2) (simp add: late_errors_def)
  next
    case (Inr ax)
    obtain matrix offset output_shape where
      rp: "rotate_params (shape input) angle ax reshape = (matrix, offset, output_shape)"
      by (cases "rotate_params (shape input) angle ax reshape") auto
    have M': "(if mode0 = ''opencv'' then ''_opencv_edge'' else mode0) \<in> set known_modes"
      using M by (auto simp: known_modes_def)
    show ?thesis
      unfolding Let_def Inr sum.case rp prod.case
      apply (rule steps_affine_transform[OF G S], erule E1, erule E2)
      using O M' apply (simp_all add: fa_ndim_def)
      done
  qed
  show ?thesis
    unfolding rotate_def
    apply (rule steps_and_then[where R = "\<lambda>_. 0 \<le> order \<and> order \<le> 5 \<and> mode0 \<in> set known_modes"])
     apply (rule steps_check_parameter, erule Eo, erule (2) Em, simp)
    apply (rule inner, simp_all)
    done
qed

lemma steps_shift:
  assumes G: "prefilter_events G (if mode = ''opencv'' then True else allow_float32)"
    and S: "sampling_events G (from_input input0)"
    and E1: "\<And>e. e \<in> data_errors \<Longrightarrow> E e"
    and E2: "\<And>e. e \<in> late_errors \<Longrightarrow> E e"
    and Eo: "order < 0 \<or> 5 < order \<Longrightarrow> E (ValueError ''spline order is not supported'')"
    and Em: "0 \<le> order \<Longrightarrow> order \<le> 5 \<Longrightarrow> mode \<notin> set known_modes
           \<Longrightarrow> E (ValueError ''boundary mode is not supported'')"
  shows "steps (shift input0 shift_arg out_arg order mode cval prefilter allow_float32)
           G (\<lambda>_. True) E"
proof -
  have kern: "steps
        (case shift0 of
           A1 v \<Rightarrow>
             if length v \<noteq> ndim filtered
             then throw (ValueError ''len(shift) must equal input.ndim'')
             else and_then
               (emit (ShiftKernel filtered v out mode cval order
                  (integer_kind (dtype out))
                  (py_prod (map int (shape input)) > two31)))
               (\<lambda>_. ok out)
         | _ \<Rightarrow> throw (ValueError ''shift must be 1d'')) G (\<lambda>_. True) E"
    if "from_input input0 filtered" for shift0 filtered out input
  proof -
    have k: "G (ShiftKernel filtered v out mode cval order io li)" for v io li
      using S that by (simp add: sampling_events_def)
    have e1: "E (ValueError ''len(shift) must equal input.ndim'')"
      and e2: "E (ValueError ''shift must be 1d'')"
      by (rule E2, simp add: late_errors_def)+
    show ?thesis
      by (cases shift0)
         (auto intro!: steps_throw e1 e2 steps_and_then[where R = "\<lambda>_. True"] steps_emit k
            steps_ok)
  qed
  have inner: "steps
     (let shift0 = (case shift_arg of
                             PyScalar x \<Rightarrow> A1 (replicate (ndim input0) x)
                           | PyArr a \<Rightarrow> a) in
          if mode = ''opencv''
          then affine_transform input0 (A1 (replicate (ndim input0) 1))
                 (PyArr (fa_negative shift0)) None out_arg order ''_opencv_edge'' cval
                 prefilter True
          else and_then (get_output out_arg input0 None)
            (\<lambda>out. and_then (integer_to_float32 input0)
               (\<lambda>input. and_then (prefiltered input order mode prefilter allow_float32)
                  (\<lambda>filtered0. and_then (ascontiguousarray filtered0)
                     (\<lambda>filtered.
                        case shift0 of
                          A1 v \<Rightarrow>
                            if length v \<noteq> ndim filtered
                            then throw (ValueError ''len(shift) must equal input.ndim'')
                            else and_then
                              (emit (ShiftKernel filtered v out mode cval order
                                 (integer_kind (dtype out))
                                 (py_prod (map int (shape input)) > two31)))
                              (\<lambda>_. ok out)
                        | _ \<Rightarrow> throw (ValueError ''shift must be 1d''))))))
     G (\<lambda>_. True) E"
    if O: "0 \<le> order" "order \<le> 5"
  proof (cases "mode = ''opencv''")
    case True
    with G have G': "prefilter_events G True" by simp
    show ?thesis
      unfolding Let_def
      apply (subst if_P, rule True)
      apply (rule steps_affine_transform[OF G' S], erule E1, erule E2)
      using O apply (simp_all add: fa_ndim_def known_modes_def)
      done
  next
    case False
    with G have G': "prefilter_events G allow_float32" by simp
    note b = prefilter_events_benign[OF G']
    show ?thesis
      unfolding Let_def
      apply (subst if_not_P, rule False)
      apply (rule steps_and_then[where R = "\<lambda>_. True"])
       apply (rule steps_get_output[OF b], erule E1, simp)
      apply (rule steps_prepare[OF G'], erule E1, rule O)
      apply (erule kern)
      done
  qed
  show ?thesis
    unfolding shift_def
    apply (rule steps_and_then[where R = "\<lambda>_. 0 \<le> order \<and> order \<le> 5"])
     apply (rule steps_check_parameter, erule Eo, erule (2) Em, simp)
    apply (rule inner, simp_all)
    done
qed

lemma steps_zoom:
  assumes G: "prefilter_events G (if mode = ''opencv'' then True else allow_float32)"
    and S: "sampling_events G (from_input input0)"
    and E1: "\<And>e. e \<in> data_errors \<Longrightarrow> E e"
    and E2: "\<And>e. e \<in> late_errors \<Longrightarrow> E e"
    and Eo: "order < 0 \<or> 5 < order \<Longrightarrow> E (ValueError ''spline order is not supported'')"
    and Em: "0 \<le> order \<Longrightarrow> order \<le> 5 \<Longrightarrow> mode \<notin> set known_modes
           \<Longrightarrow> E (ValueError ''boundary mode is not supported'')"
  shows "steps (zoom input0 zoom_arg out_arg order mode cval prefilter allow_float32)
           G (\<lambda>_. True) E"
proof -
  have kern: "steps
        (if length factors \<noteq> ndim filtered
         then throw (ValueError ''len(zoom) must equal input.ndim'')
         else and_then
           (emit (ZoomKernel filtered factors out mode order
              (integer_kind (dtype out))
              (max (py_prod (map int (shape input)))
                 (py_prod output_shape) > two31)))
           (\<lambda>_. ok out)) G (\<lambda>_. True) E"
    if "from_input input0 filtered" for factors filtered out input output_shape
  proof -
    have k: "G (ZoomKernel filtered v out mode order io li)" for v io li
      using S that by (simp add: sampling_events_def)
    have e1: "E (ValueError ''len(zoom) must equal input.ndim'')"
      by (rule E2, simp add: late_errors_def)
    show ?thesis
      by (auto intro!: steps_throw e1 steps_and_then[where R = "\<lambda>_. True"] steps_emit k
            steps_ok)
  qed
  have inner: "steps
     (let zs = (case zoom_arg of
                         ZScalar z \<Rightarrow> replicate (ndim input0) z
                       | ZSeq l \<Rightarrow> l);
                 output_shape = zoom_output_shape (shape input0) zs in
          if mode = ''opencv''
          then affine_transform input0
                 (A1 (opencv_zoom_factors (shape input0) output_shape))
                 (PyArr (A1 (opencv_zoom_offsets (shape input0) output_shape)))
                 (Some output_shape) out_arg order ''nearest'' cval prefilter True
          else
            let factors = zoom_factors (shape input0) output_shape in
            and_then (get_output out_arg input0 (Some output_shape))
              (\<lambda>out. and_then (integer_to_float32 input0)
                 (\<lambda>input. and_then (prefiltered input order mode prefilter allow_float32)
                    (\<lambda>filtered0. and_then (ascontiguousarray filtered0)
                       (\<lambda>filtered.
                          if length factors \<noteq> ndim filtered
                          then throw (ValueError ''len(zoom) must equal input.ndim'')
                          else and_then
                            (emit (ZoomKernel filtered factors out mode order
                               (integer_kind (dtype out))
                               (max (py_prod (map int (shape input)))
                                  (py_prod output_shape) > two31)))
                            (\<lambda>_. ok out))))))
     G (\<lambda>_. True) E"
    if O: "0 \<le> order" "order \<le> 5"
  proof (cases "mode = ''opencv''")
    case True
    with G have G': "prefilter_events G True" by simp
    show ?thesis
      unfolding Let_def
      apply (subst if_P, rule True)
      apply (rule steps_affine_transform[OF G' S], erule E1, erule E2)
      using O apply (simp_all add: fa_ndim_def known_modes_def)
      done
  next
    case False
    with G have G': "prefilter_events G allow_float32" by simp
    note b = prefilter_events_benign[OF G']
    show ?thesis
      unfolding Let_def
      apply (subst if_not_P, rule False)
      apply (rule steps_and_then[where R = "\<lambda>_. True"])
       apply (rule steps_get_output[OF b], erule E1, simp)
      apply (rule steps_prepare[OF G'], erule E1, rule O)
      apply (erule kern)
      done
  qed
  show ?thesis
    unfolding zoom_def
    apply (rule steps_and_then[where R = "\<lambda>_. 0 \<le> order \<and> order \<le> 5"])
     apply (rule steps_check_parameter, erule Eo, erule (2) Em, simp)
    apply (rule inner, simp_all)
    done
qed

subsection \<open>Order and mode validation\<close>

lemma steps_error: "steps m G Q E \<Longrightarrow> m s = (Inl e, s') \<Longrightarrow> E e"
  by (drule (1) stepsD) simp

lemma steps_fst_error: "steps m G Q E \<Longrightarrow> fst (m s) = Inl e \<Longrightarrow> E e"
  by (cases "m s") (auto dest: steps_error)

lemma steps_new_events:
  "steps m G Q E \<Longrightarrow> m s = (r, s') \<Longrightarrow> \<forall>e \<in> set (new_events s s'). G e"
  by (drule (1) stepsD) (auto simp: new_events_def)

lemma prefilter_events_True: "prefilter_events (\<lambda>_. True) af"
  by (simp add: prefilter_events_def benign_def)

lemma sampling_events_True: "sampling_events (\<lambda>_. True) P"
  by (simp add: sampling_events_def)

lemma data_errors_valid: "e \<in> data_errors \<Longrightarrow> \<not> invalid_order e \<and> e \<noteq> invalid_mode"
  by (auto simp: data_errors_def invalid_order_def invalid_mode_def)

lemma late_errors_valid: "e \<in> late_errors \<Longrightarrow> \<not> invalid_order e \<and> e \<noteq> invalid_mode"
  by (auto simp: late_errors_def invalid_order_def invalid_mode_def)

lemma order_rejected:
  assumes "order < 0 \<or> 5 < order"
  shows "and_then (check_parameter name order mode) f s
           = (Inl (ValueError ''spline order is not supported''), s)"
  using assms by (auto simp: and_then_def check_parameter_def throw_def)

lemma mode_rejected:
  assumes "0 \<le> order" "order \<le> 5" "mode \<notin> set known_modes"
  shows "and_then (check_parameter name order mode) f s = (Inl invalid_mode, s)"
  using assms by (auto simp: and_then_def check_parameter_def throw_def invalid_mode_def)

lemma order_error_iff:
  assumes st: "steps m (\<lambda>_. True) (\<lambda>_. True) (\<lambda>e. invalid_order e \<longrightarrow> bad)"
    and rej: "bad \<Longrightarrow> \<exists>e. fst (m s) = Inl e \<and> invalid_order e"
  shows "(\<exists>e. fst (m s) = Inl e \<and> invalid_order e) = bad"
  using steps_fst_error[OF st] rej by blast

lemma mode_error_iff:
  assumes st: "steps m (\<lambda>_. True) (\<lambda>_. True) (\<lambda>e. e = invalid_mode \<longrightarrow> bad)"
    and rej: "bad \<Longrightarrow> fst (m s) = Inl invalid_mode"
  shows "(fst (m s) = Inl invalid_mode) = bad"
  using steps_fst_error[OF st] rej by blast

lemma order_spline_filter1d:
  "(\<exists>e. fst (spline_filter1d x order axis out_arg mode af s) = Inl e \<and> invalid_order e)
     = (order < 0 \<or> 5 < order)"
  apply (rule order_error_iff)
   apply (rule steps_weaken[OF steps_spline_filter1d[OF prefilter_events_True,
            where E = "\<lambda>e. invalid_order e \<longrightarrow> order < 0 \<or> 5 < order"]])
  using data_errors_valid apply (auto simp: spline_filter1d_def throw_def invalid_order_def)
  done

lemma order_spline_filter:
  "(\<exists>e. fst (spline_filter x order out_arg mode af s) = Inl e \<and> invalid_order e)
     = (order < 2 \<or> 5 < order)"
  apply (rule order_error_iff)
   apply (rule steps_weaken[OF steps_spline_filter[OF prefilter_events_True,
            where E = "\<lambda>e. invalid_order e \<longrightarrow> order < 2 \<or> 5 < order" and Q = "\<lambda>_. True"]])
  using data_errors_valid apply (auto simp: spline_filter_def throw_def invalid_order_def)
  done

lemma order_map_coordinates:
  "(\<exists>e. fst (map_coordinates x coords out_arg order mode cval prefilter af s) = Inl e
        \<and> invalid_order e) = (order < 0 \<or> 5 < order)"
  apply (rule order_error_iff)
   apply (rule steps_weaken[OF steps_map_coordinates[OF prefilter_events_True
            sampling_events_True,
            where E = "\<lambda>e. invalid_order e \<longrightarrow> order < 0 \<or> 5 < order"]])
  using data_errors_valid late_errors_valid
         apply (auto simp: map_coordinates_def order_rejected invalid_order_def)
  done

lemma order_affine_transform:
  "(\<exists>e. fst (affine_transform x matrix offset oshape out_arg order mode cval prefilter af s)
          = Inl e \<and> invalid_order e) = (order < 0 \<or> 5 < order)"
  apply (rule order_error_iff)
   apply (rule steps_weaken[OF steps_affine_transform[OF prefilter_events_True
            sampling_events_True,
            where E = "\<lambda>e. invalid_order e \<longrightarrow> order < 0 \<or> 5 < order"]])
  using data_errors_valid late_errors_valid
         apply (auto simp: affine_transform_def order_rejected invalid_order_def)
  done

lemma order_rotate:
  "(\<exists>e. fst (rotate x angle axes reshape out_arg order mode cval prefilter af s)
          = Inl e \<and> invalid_order e) = (order < 0 \<or> 5 < order)"
  apply (rule order_error_iff)
   apply (rule steps_weaken[OF steps_rotate[OF prefilter_events_True
            sampling_events_True,
            where E = "\<lambda>e. invalid_order e \<longrightarrow> order < 0 \<or> 5 < order"]])
  using data_errors_valid late_errors_valid
         apply (auto simp: rotate_def order_rejected invalid_order_def)
  done

lemma order_shift:
  "(\<exists>e. fst (shift x shift_arg out_arg order mode cval prefilter af s)
          = Inl e \<and> invalid_order e) = (order < 0 \<or> 5 < order)"
  apply (rule order_error_iff)
   apply (rule steps_weaken[OF steps_shift[OF prefilter_events_True
            sampling_events_True,
            where E = "\<lambda>e. invalid_order e \<longrightarrow> order < 0 \<or> 5 < order"]])
  using data_errors_valid late_errors_valid
         apply (auto simp: shift_def order_rejected invalid_order_def)
  done

lemma order_zoom:
  "(\<exists>e. fst (zoom x zoom_arg out_arg order mode cval prefilter af s)
          = Inl e \<and> invalid_order e) = (order < 0 \<or> 5 < order)"
  apply (rule order_error_iff)
   apply (rule steps_weaken[OF steps_zoom[OF prefilter_events_True
            sampling_events_True,
            where E = "\<lambda>e. invalid_order e \<longrightarrow> order < 0 \<or> 5 < order"]])
  using data_errors_valid late_errors_valid
         apply (auto simp: zoom_def order_rejected invalid_order_def)
  done

subsection \<open>C5: which spline orders are accepted\<close>

text \<open>
  Claim C5, as the code has it.  \<^verbatim>\<open>spline_filter1d\<close>, \<^verbatim>\<open>map_coordinates\<close>,
  \<^verbatim>\<open>affine_transform\<close>, \<^verbatim>\<open>rotate\<close>, \<^verbatim>\<open>shift\<close> and \<^verbatim>\<open>zoom\<close> report an
  unsupported spline order exactly for the orders outside \<open>[0, 5]\<close>, whatever the other
  arguments are; \<^verbatim>\<open>spline_filter\<close> reports it exactly for the orders outside
  \<open>[2, 5]\<close>, so it refuses the orders 0 and 1 as well.
\<close>

theorem order_validation:
  "((\<exists>e. fst (spline_filter1d x order axis out_arg mode af s) = Inl e \<and> invalid_order e)
      = (order < 0 \<or> 5 < order)) \<and>
   ((\<exists>e. fst (map_coordinates x coords out_arg order mode cval prefilter af s) = Inl e
        \<and> invalid_order e) = (order < 0 \<or> 5 < order)) \<and>
   ((\<exists>e. fst (affine_transform x matrix offset oshape out_arg order mode cval prefilter af s)
          = Inl e \<and> invalid_order e) = (order < 0 \<or> 5 < order)) \<and>
   ((\<exists>e. fst (rotate x angle axes reshape out_arg order mode cval prefilter af s)
          = Inl e \<and> invalid_order e) = (order < 0 \<or> 5 < order)) \<and>
   ((\<exists>e. fst (shift x shift_arg out_arg order mode cval prefilter af s)
          = Inl e \<and> invalid_order e) = (order < 0 \<or> 5 < order)) \<and>
   ((\<exists>e. fst (zoom x zoom_arg out_arg order mode cval prefilter af s)
          = Inl e \<and> invalid_order e) = (order < 0 \<or> 5 < order)) \<and>
   ((\<exists>e. fst (spline_filter x order out_arg mode af s) = Inl e \<and> invalid_order e)
      = (order < 2 \<or> 5 < order))"
  by (simp only: order_spline_filter1d order_map_coordinates order_affine_transform
        order_rotate order_shift order_zoom order_spline_filter simp_thms)

text \<open>
  An instance: on the 4 by 4 example, \<^verbatim>\<open>zoom\<close> refuses the order 6 and
  \<^verbatim>\<open>spline_filter\<close> refuses the order 1.
\<close>

theorem order_validation_witness:
  "(\<exists>e. fst (zoom (image44 Float64) (ZScalar 2) OutNone 6 ''constant'' 0 True True start)
          = Inl e \<and> invalid_order e) \<and>
   (\<exists>e. fst (spline_filter (image44 Float64) 1 OutNone ''constant'' True start) = Inl e
        \<and> invalid_order e)"
  using order_validation[of "image44 Float64" 6 0 OutNone "''constant''" True start
          "image44 Float64" 0 True "A1 []" "PyScalar 0" None 0 "(1, 0)" True "PyScalar 0"
          "ZScalar 2"]
        order_validation[of "image44 Float64" 1 0 OutNone "''constant''" True start
          "image44 Float64" 0 True "A1 []" "PyScalar 0" None 0 "(1, 0)" True "PyScalar 0"
          "ZScalar 2"]
  by simp

text \<open>
  Claim C5 as stated fails: the order 1 lies in \<open>[0, 5]\<close>, and \<^verbatim>\<open>spline_filter\<close>
  raises on it (line 254, \<^verbatim>\<open>order < 2 or order > 5\<close>).
\<close>

theorem spline_filter_rejects_order_1:
  "spline_filter (image44 Float64) 1 (OutDtype Float64) ''mirror'' True start
     = (Inl (RuntimeError ''spline order not supported''), start)"
  by (simp add: spline_filter_def throw_def)

subsection \<open>C7: which boundary modes are accepted\<close>

lemma mode_spline_filter1d:
  "fst (spline_filter1d x order axis out_arg mode af s) \<noteq> Inl invalid_mode"
proof
  assume a: "fst (spline_filter1d x order axis out_arg mode af s) = Inl invalid_mode"
  have "steps (spline_filter1d x order axis out_arg mode af) (\<lambda>_. True) (\<lambda>_. True)
          (\<lambda>e. e \<noteq> invalid_mode)"
    apply (rule steps_spline_filter1d[OF prefilter_events_True])
    using data_errors_valid apply (auto simp: invalid_mode_def)
    done
  from steps_fst_error[OF this a] show False by simp
qed

lemma mode_spline_filter:
  "fst (spline_filter x order out_arg mode af s) \<noteq> Inl invalid_mode"
proof
  assume a: "fst (spline_filter x order out_arg mode af s) = Inl invalid_mode"
  have "steps (spline_filter x order out_arg mode af) (\<lambda>_. True) (\<lambda>_. True)
          (\<lambda>e. e \<noteq> invalid_mode)"
    apply (rule steps_spline_filter[OF prefilter_events_True])
    using data_errors_valid apply (auto simp: invalid_mode_def)
    done
  from steps_fst_error[OF this a] show False by simp
qed

lemma mode_map_coordinates:
  "(fst (map_coordinates x coords out_arg order mode cval prefilter af s) = Inl invalid_mode)
     = (0 \<le> order \<and> order \<le> 5 \<and> mode \<notin> set known_modes)"
  apply (rule mode_error_iff)
   apply (rule steps_weaken[OF steps_map_coordinates[OF prefilter_events_True
            sampling_events_True,
            where E = "\<lambda>e. e = invalid_mode \<longrightarrow> 0 \<le> order \<and> order \<le> 5 \<and> mode \<notin> set known_modes"]])
  using data_errors_valid late_errors_valid
         apply (auto simp: map_coordinates_def mode_rejected invalid_mode_def)
  done

lemma mode_affine_transform:
  "(fst (affine_transform x matrix offset oshape out_arg order mode cval prefilter af s)
      = Inl invalid_mode) = (0 \<le> order \<and> order \<le> 5 \<and> mode \<notin> set known_modes)"
  apply (rule mode_error_iff)
   apply (rule steps_weaken[OF steps_affine_transform[OF prefilter_events_True
            sampling_events_True,
            where E = "\<lambda>e. e = invalid_mode \<longrightarrow> 0 \<le> order \<and> order \<le> 5 \<and> mode \<notin> set known_modes"]])
  using data_errors_valid late_errors_valid
         apply (auto simp: affine_transform_def mode_rejected invalid_mode_def)
  done

lemma mode_rotate:
  "(fst (rotate x angle axes reshape out_arg order mode cval prefilter af s)
      = Inl invalid_mode) = (0 \<le> order \<and> order \<le> 5 \<and> mode \<notin> set known_modes)"
  apply (rule mode_error_iff)
   apply (rule steps_weaken[OF steps_rotate[OF prefilter_events_True
            sampling_events_True,
            where E = "\<lambda>e. e = invalid_mode \<longrightarrow> 0 \<le> order \<and> order \<le> 5 \<and> mode \<notin> set known_modes"]])
  using data_errors_valid late_errors_valid
         apply (auto simp: rotate_def mode_rejected invalid_mode_def)
  done

lemma mode_shift:
  "(fst (shift x shift_arg out_arg order mode cval prefilter af s)
      = Inl invalid_mode) = (0 \<le> order \<and> order \<le> 5 \<and> mode \<notin> set known_modes)"
  apply (rule mode_error_iff)
   apply (rule steps_weaken[OF steps_shift[OF prefilter_events_True
            sampling_events_True,
            where E = "\<lambda>e. e = invalid_mode \<longrightarrow> 0 \<le> order \<and> order \<le> 5 \<and> mode \<notin> set known_modes"]])
  using data_errors_valid late_errors_valid
         apply (auto simp: shift_def mode_rejected invalid_mode_def)
  done

lemma mode_zoom:
  "(fst (zoom x zoom_arg out_arg order mode cval prefilter af s)
      = Inl invalid_mode) = (0 \<le> order \<and> order \<le> 5 \<and> mode \<notin> set known_modes)"
  apply (rule mode_error_iff)
   apply (rule steps_weaken[OF steps_zoom[OF prefilter_events_True
            sampling_events_True,
            where E = "\<lambda>e. e = invalid_mode \<longrightarrow> 0 \<le> order \<and> order \<le> 5 \<and> mode \<notin> set known_modes"]])
  using data_errors_valid late_errors_valid
         apply (auto simp: zoom_def mode_rejected invalid_mode_def)
  done

lemma bc_to_refl: "bc_to xs xs"
  by (induction xs) auto

lemma broadcast_to_ok_refl: "broadcast_to_ok sh sh"
  by (simp add: broadcast_to_ok_def bc_to_refl)

lemma map_nat_int: "map nat (map int xs) = xs"
  by (induction xs) auto

lemma spline_filter1d_low_order:
  assumes "order = 0 \<or> order = 1" and "- int (ndim x) \<le> axis" and "axis < int (ndim x)"
  shows "\<exists>r. fst (spline_filter1d x order axis (OutDtype d) mode af s) = Inr r"
  using assms
  by (auto simp: spline_filter1d_def spline_filter1d_at_def normalize_axis_index_def
        and_then_def ok_def get_output_def zeros_def new_array_def assign_def emit_def
        broadcast_to_ok_refl map_nat_int Let_def simp del: map_map)

text \<open>
  Claim C7, as the code has it.  The five transforms report an unknown boundary mode
  exactly when the order is in \<open>[0, 5]\<close> (the order is checked first) and the string is
  not one of the seven known modes.  \<^verbatim>\<open>spline_filter1d\<close> and \<^verbatim>\<open>spline_filter\<close> do
  not call \<^verbatim>\<open>_check_parameter\<close>: they never report an unknown mode, and with order 0
  or 1 \<^verbatim>\<open>spline_filter1d\<close> returns for every mode string.  (For the orders from 2 on
  the string is handed to the kernel builder, which is not among the sources.)
\<close>

theorem mode_validation:
  "((fst (map_coordinates x coords out_arg order mode cval prefilter af s) = Inl invalid_mode)
      = (0 \<le> order \<and> order \<le> 5 \<and> mode \<notin> set known_modes)) \<and>
   ((fst (affine_transform x matrix offset oshape out_arg order mode cval prefilter af s)
      = Inl invalid_mode) = (0 \<le> order \<and> order \<le> 5 \<and> mode \<notin> set known_modes)) \<and>
   ((fst (rotate x angle axes reshape out_arg order mode cval prefilter af s)
      = Inl invalid_mode) = (0 \<le> order \<and> order \<le> 5 \<and> mode \<notin> set known_modes)) \<and>
   ((fst (shift x shift_arg out_arg order mode cval prefilter af s)
      = Inl invalid_mode) = (0 \<le> order \<and> order \<le> 5 \<and> mode \<notin> set known_modes)) \<and>
   ((fst (zoom x zoom_arg out_arg order mode cval prefilter af s)
      = Inl invalid_mode) = (0 \<le> order \<and> order \<le> 5 \<and> mode \<notin> set known_modes)) \<and>
   fst (spline_filter1d x order axis out_arg mode af s) \<noteq> Inl invalid_mode \<and>
   fst (spline_filter x order out_arg mode af s) \<noteq> Inl invalid_mode \<and>
   ((order = 0 \<or> order = 1) \<and> - int (ndim x) \<le> axis \<and> axis < int (ndim x) \<longrightarrow>
      (\<exists>r. fst (spline_filter1d x order axis (OutDtype d) mode af s) = Inr r))"
  using mode_spline_filter1d[of x order axis out_arg mode af s]
    mode_spline_filter[of x order out_arg mode af s]
    spline_filter1d_low_order[of order x axis d mode af s]
  by (simp only: mode_map_coordinates mode_affine_transform mode_rotate mode_shift
        mode_zoom simp_thms) blast

text \<open>
  An instance: the string \<open>bogus\<close> is refused by \<^verbatim>\<open>shift\<close> with order 3, and
  \<^verbatim>\<open>spline_filter1d\<close> with order 1 returns on it.
\<close>

theorem mode_validation_witness:
  "fst (shift (image44 Float64) (PyScalar 1) OutNone 3 ''bogus'' 0 True True start)
     = Inl invalid_mode \<and>
   (\<exists>r. fst (spline_filter1d (image44 Float64) 1 (- 1) (OutDtype Float64) ''bogus'' True
            start) = Inr r)"
  using mode_validation[of "image44 Float64" "image44 Float64" OutNone 3 "''bogus''" 0 True
          True start "A1 []" "PyScalar 0" None 0 "(1, 0)" True "PyScalar 1" "ZScalar 2" 0
          Float64]
        mode_validation[of "image44 Float64" "image44 Float64" OutNone 1 "''bogus''" 0 True
          True start "A1 []" "PyScalar 0" None 0 "(1, 0)" True "PyScalar 1" "ZScalar 2" "- 1"
          Float64]
  by (simp add: known_modes_def image44_def ndim_def)

text \<open>
  Claim C7 as stated fails for \<^verbatim>\<open>spline_filter1d\<close>: the string \<open>bogus\<close> is no
  boundary mode, and with order 1 the call returns a copy of the input.
\<close>

theorem spline_filter1d_accepts_unknown_mode:
  "''bogus'' \<notin> set known_modes \<and>
   fst (spline_filter1d (image44 Float64) 1 (- 1) (OutDtype Float64) ''bogus'' True start)
     = Inr \<lparr>obj_id = 10, base = 10, lo_byte = 0, hi_byte = 128, shape = [4, 4],
            dtype = Float64, c_contiguous = True, c_order = True\<rparr>"
  by (simp add: known_modes_def spline_filter1d_def spline_filter1d_at_def
        normalize_axis_index_def and_then_def ok_def get_output_def zeros_def new_array_def
        assign_def emit_def broadcast_to_ok_def Let_def image44_def start_def ndim_def
        py_prod_def)

subsection \<open>C8: the workspace of the prefilter and the caller's input\<close>

lemma get_spline_output_temp:
  assumes "base input < next_id s"
    and "get_spline_output input out_arg af s = (Inr (temp, fd, od), s')"
  shows "(out_arg = OutArray temp \<and> dtype temp = fd \<and> c_contiguous temp)
         \<or> \<not> shares_memory temp input"
  using assms
  by (cases out_arg)
     (auto simp: get_spline_output_def astype_nocopy_def ascontiguousarray_def copy_array_def
        new_array_def and_then_def ok_def emit_def throw_def assign_def shares_memory_def
        Let_def split: if_splits)

lemma benign_not_mutated: "benign (\<lambda>e. mutated e = None)"
  by (simp add: benign_def)

lemma steps_passthrough:
  assumes b: "benign G"
  shows "steps (and_then (get_output out_arg x None)
             (\<lambda>out. and_then (assign out x) (\<lambda>_. ok out))) G (\<lambda>_. True) (\<lambda>_. True)"
  apply (rule steps_and_then[where R = "\<lambda>_. True"])
   apply (rule steps_get_output[OF b], simp, simp)
  apply (rule steps_and_then[where R = "\<lambda>_. True"])
   apply (rule steps_assign[OF b], simp, simp)
  apply (rule steps_ok, simp)
  done

lemma steps_finish:
  assumes b: "benign G"
  shows "steps (case out_arg of
                  OutArray out \<Rightarrow>
                    if obj_id temp \<noteq> obj_id out
                    then and_then (assign out temp) (\<lambda>_. ok out)
                    else astype_nocopy temp od
                | _ \<Rightarrow> astype_nocopy temp od) G (\<lambda>_. True) (\<lambda>_. True)"
  by (cases out_arg)
     (auto intro!: steps_astype_nocopy[OF b] steps_and_then[where R = "\<lambda>_. True"]
        steps_assign[OF b] steps_ok)

lemma spline_filter1d_at_mutates:
  assumes fresh: "base x < next_id s"
    and run: "spline_filter1d_at x order ax out_arg mode af s = (r, s')"
  shows "\<forall>e \<in> set (new_events s s'). \<forall>t. mutated e = Some t \<longrightarrow>
           (out_arg = OutArray t \<or> \<not> shares_memory t x)"
proof (cases "order < 2 \<or> ndim x = 0 \<or> shape x ! ax = 1")
  case True
  with run have "and_then (get_output out_arg x None)
             (\<lambda>out. and_then (assign out x) (\<lambda>_. ok out)) s = (r, s')"
    by (simp add: spline_filter1d_at_def)
  from steps_new_events[OF steps_passthrough[OF benign_not_mutated] this]
  show ?thesis by simp
next
  case False
  let ?fin = "\<lambda>temp od. case out_arg of
                  OutArray out \<Rightarrow>
                    if obj_id temp \<noteq> obj_id out
                    then and_then (assign out temp) (\<lambda>_. ok out)
                    else astype_nocopy temp od
                | _ \<Rightarrow> astype_nocopy temp od"
  obtain r1 s1 where g: "get_spline_output x out_arg af s = (r1, s1)"
    by (cases "get_spline_output x out_arg af s")
  have st: "steps (get_spline_output x out_arg af) (\<lambda>e. mutated e = None) (\<lambda>_. True)
              (\<lambda>_. True)"
    by (rule steps_get_spline_output[OF benign_not_mutated]) simp_all
  from stepsD[OF st g] obtain evs1 where
    t1: "trace s1 = trace s @ evs1" and g1: "\<forall>e \<in> set evs1. mutated e = None" by blast
  show ?thesis
  proof (cases r1)
    case (Inl e)
    with run g False have "s' = s1"
      by (simp add: spline_filter1d_at_def and_then_def)
    with t1 g1 show ?thesis by (simp add: new_events_def)
  next
    case (Inr p)
    obtain temp fd od where p: "p = (temp, fd, od)" by (cases p)
    from get_spline_output_temp[OF fresh g[unfolded Inr p]]
    have P: "out_arg = OutArray temp \<or> \<not> shares_memory temp x" by blast
    show ?thesis
    proof (cases "shape x ! ax = 0")
    case True
    with run g False Inr p have "s' = s1"
      by (simp add: spline_filter1d_at_def and_then_def throw_def)
    with t1 g1 show ?thesis by (simp add: new_events_def)
    next
    case nz: False
    let ?s2 = "s1\<lparr>trace := trace s1 @ [ScaleInPlace temp]\<rparr>
                 \<lparr>trace := trace s1 @ [ScaleInPlace temp] @ [SplineKernel temp ax mode order]\<rparr>"
    from run g False nz Inr p have f: "?fin temp od ?s2 = (r, s')"
      by (simp add: spline_filter1d_at_def and_then_def emit_def)
    from stepsD[OF steps_finish[OF benign_not_mutated] f] obtain evs3 where
      t3: "trace s' = trace ?s2 @ evs3" and g3: "\<forall>e \<in> set evs3. mutated e = None"
      by blast
    from t1 t3 have "new_events s s'
        = evs1 @ [ScaleInPlace temp, SplineKernel temp ax mode order] @ evs3"
      by (simp add: new_events_def)
    with g1 g3 P show ?thesis by auto
    qed
  qed
qed

text \<open>
  Claim C8, as the code has it.  Whatever \<^verbatim>\<open>spline_filter1d\<close> scales or filters in
  place is either the array the caller passed as \<^verbatim>\<open>output\<close> (taken as workspace when it
  is C-contiguous and of the working type; filtering an array in place, with the input as
  the output, goes this way) or an array that shares no memory with the input.  The input
  lies in an allocation made before the call.
\<close>

theorem workspace_aliasing:
  assumes "base x < next_id s"
    and "spline_filter1d x order axis out_arg mode af s = (r, s')"
  shows "\<forall>e \<in> set (new_events s s'). \<forall>t. mutated e = Some t \<longrightarrow>
           (out_arg = OutArray t \<or> \<not> shares_memory t x)"
proof (cases "order < 0 \<or> 5 < order")
  case True
  with assms(2) have "s' = s" by (auto simp: spline_filter1d_def throw_def)
  then show ?thesis by (simp add: new_events_def)
next
  case False
  show ?thesis
  proof (cases "axis < - int (ndim x) \<or> int (ndim x) \<le> axis")
    case True
    with assms(2) False have "s' = s"
      by (auto simp: spline_filter1d_def normalize_axis_index_def and_then_def throw_def)
    then show ?thesis by (simp add: new_events_def)
  next
    case ok: False
    with assms(2) False have
      "spline_filter1d_at x order (nat (if axis < 0 then axis + int (ndim x) else axis))
         out_arg mode af s = (r, s')"
      by (auto simp: spline_filter1d_def normalize_axis_index_def and_then_def ok_def)
    from spline_filter1d_at_mutates[OF assms(1) this] show ?thesis .
  qed
qed

theorem workspace_aliasing_witness:
  "base (image44 Float32) < next_id start \<and>
   list_all
     (\<lambda>e. \<forall>t. mutated e = Some t \<longrightarrow>
            (OutDtype Float64 = OutArray t \<or> \<not> shares_memory t (image44 Float32)))
     (new_events start
        (snd (spline_filter1d (image44 Float32) 3 0 (OutDtype Float64) ''mirror'' True start)))"
  using workspace_aliasing[of "image44 Float32" start 3 0 "OutDtype Float64" "''mirror''" True
          "fst (spline_filter1d (image44 Float32) 3 0 (OutDtype Float64) ''mirror'' True start)"
          "snd (spline_filter1d (image44 Float32) 3 0 (OutDtype Float64) ''mirror'' True start)"]
  by (simp add: image44_def start_def list_all_iff)

lemma promote_same: "promote_types d d = d"
  by (induct d; code_simp)

text \<open>
  Claim C8 as stated fails.  With the input itself as the output array (C-contiguous and
  of the working type) the input is the workspace: no copy is made, and gain and kernel
  change the caller's input in place.  The same happens with an output array that is
  another view of the input's memory, after the input has been copied into it.
\<close>

theorem workspace_shares_memory_with_input:
  "shares_memory (image44 Float64) (image44 Float64) \<and>
   snd (spline_filter1d (image44 Float64) 3 0 (OutArray (image44 Float64)) ''mirror'' False
          start)
     = \<lparr>next_id = 10,
        trace = [ScaleInPlace (image44 Float64),
                 SplineKernel (image44 Float64) 0 ''mirror'' 3]\<rparr> \<and>
   shares_memory (view44 Float64) (image44 Float64) \<and>
   snd (spline_filter1d (image44 Float64) 3 0 (OutArray (view44 Float64)) ''mirror'' False
          start)
     = \<lparr>next_id = 10,
        trace = [Assign (view44 Float64) (image44 Float64),
                 ScaleInPlace (view44 Float64),
                 SplineKernel (view44 Float64) 0 ''mirror'' 3]\<rparr>"
  by (simp add: spline_filter1d_def spline_filter1d_at_def normalize_axis_index_def
        get_spline_output_def min_float_dtype_def promote_same astype_nocopy_def
        and_then_def ok_def assign_def emit_def broadcast_to_ok_refl Let_def
        shares_memory_def view44_def image44_def start_def ndim_def)

subsection \<open>C9: orders 0 and 1 and extent 1 pass through\<close>




subsection \<open>C4: output extents and zoom factors\<close>














subsection \<open>C10: integer input is interpolated as float32\<close>

















subsection \<open>C1: the precision of the prefilter workspace\<close>

lemma promote_Float64:
  "promote_types d Float64 = (if kind d = CHR ''c'' then Complex128 else Float64)"
  by (induct d; code_simp)

lemma promote_Complex128: "promote_types d Complex128 = Complex128"
  by (induct d; code_simp)

lemma float_bytes_le_8: "float_bytes d \<le> 8"
  by (cases d) (simp_all add: float_bytes_def)

lemma working_dtype_double:
  assumes "working_dtype False t"
  shows "float_bytes (dtype t) = 8"
proof -
  from assms obtain d x where "dtype t = promote_types d (min_float_dtype x False)"
    unfolding working_dtype_def by blast
  then show ?thesis
    by (simp add: min_float_dtype_def promote_Float64 promote_Complex128 float_bytes_def
          split: if_splits)
qed

lemma prefilter_events_double: "prefilter_events double_workspace False"
  by (simp add: prefilter_events_def benign_def double_workspace_def working_dtype_double)

lemma sampling_events_double: "sampling_events double_workspace P"
proof -
  have "double_workspace e" if "sampled_array e = Some f" for e f
    using that by (cases e) (simp_all add: double_workspace_def)
  then show ?thesis by (simp add: sampling_events_def)
qed

lemma new_events_double:
  assumes "steps m double_workspace Q E"
  shows "\<forall>e \<in> set (new_events s (snd (m s))). double_workspace e"
  using steps_new_events[OF assms, of s "fst (m s)" "snd (m s)"] by simp

text \<open>
  Claim C1, as the code has it.  With \<^verbatim>\<open>allow_float32=False\<close> every buffer that the
  spline prefilter scales and filters in place is of type float64 or complex128, whatever
  the types of input and output are: in \<^verbatim>\<open>map_coordinates\<close>, \<^verbatim>\<open>affine_transform\<close>
  and \<^verbatim>\<open>rotate\<close>, and in \<^verbatim>\<open>shift\<close> and \<^verbatim>\<open>zoom\<close> outside mode opencv.  No
  output type is wider.  (The converted input and the array handed to the sampling kernel
  are not covered: they have the type of the input, float32 for an integer input.)
\<close>

theorem prefilter_workspace_is_double:
  "(\<forall>e \<in> set (new_events s
        (snd (map_coordinates x coords out_arg order mode cval prefilter False s))).
      double_workspace e) \<and>
   (\<forall>e \<in> set (new_events s
        (snd (affine_transform x matrix offset oshape out_arg order mode cval prefilter
                False s))).
      double_workspace e) \<and>
   (\<forall>e \<in> set (new_events s
        (snd (rotate x angle axes reshape out_arg order mode cval prefilter False s))).
      double_workspace e) \<and>
   (mode \<noteq> ''opencv'' \<longrightarrow>
      (\<forall>e \<in> set (new_events s
           (snd (shift x shift_arg out_arg order mode cval prefilter False s))).
         double_workspace e) \<and>
      (\<forall>e \<in> set (new_events s
           (snd (zoom x zoom_arg out_arg order mode cval prefilter False s))).
         double_workspace e)) \<and>
   (\<forall>d. float_bytes d \<le> 8)"
proof (intro conjI impI)
  show "\<forall>e \<in> set (new_events s
        (snd (map_coordinates x coords out_arg order mode cval prefilter False s))).
      double_workspace e"
    by (rule new_events_double[where E = "\<lambda>_. True"],
        rule steps_map_coordinates[OF prefilter_events_double sampling_events_double])
       simp_all
  show "\<forall>e \<in> set (new_events s
        (snd (affine_transform x matrix offset oshape out_arg order mode cval prefilter
                False s))).
      double_workspace e"
    by (rule new_events_double[where E = "\<lambda>_. True"],
        rule steps_affine_transform[OF prefilter_events_double sampling_events_double])
       simp_all
  show "\<forall>e \<in> set (new_events s
        (snd (rotate x angle axes reshape out_arg order mode cval prefilter False s))).
      double_workspace e"
    by (rule new_events_double[where E = "\<lambda>_. True"],
        rule steps_rotate[OF prefilter_events_double sampling_events_double])
       simp_all
  show "\<forall>d. float_bytes d \<le> 8" by (simp add: float_bytes_le_8)
next
  assume m: "mode \<noteq> ''opencv''"
  then have G: "prefilter_events double_workspace (if mode = ''opencv'' then True else False)"
    by (simp add: prefilter_events_double)
  show "\<forall>e \<in> set (new_events s
           (snd (shift x shift_arg out_arg order mode cval prefilter False s))).
         double_workspace e"
    by (rule new_events_double[where E = "\<lambda>_. True"],
        rule steps_shift[OF G sampling_events_double]) simp_all
  show "\<forall>e \<in> set (new_events s
           (snd (zoom x zoom_arg out_arg order mode cval prefilter False s))).
         double_workspace e"
    by (rule new_events_double[where E = "\<lambda>_. True"],
        rule steps_zoom[OF G sampling_events_double]) simp_all
qed

text \<open>
  An instance: \<^verbatim>\<open>shift\<close> of the float32 example into a float64 result with order 3; the
  prefilter runs on a float64 workspace.
\<close>

theorem prefilter_workspace_is_double_witness:
  "''constant'' \<noteq> ''opencv'' \<and>
   list_all double_workspace
     (new_events start
        (snd (shift (image44 Float32) (PyScalar 1) (OutDtype Float64) 3 ''constant'' 0 True
                False start))) \<and>
   SplineKernel
     \<lparr>obj_id = 11, base = 11, lo_byte = 0, hi_byte = 128, shape = [4, 4],
      dtype = Float64, c_contiguous = True, c_order = True\<rparr> 0 ''constant'' 3
     \<in> set (trace (snd (shift (image44 Float32) (PyScalar 1) (OutDtype Float64) 3
                           ''constant'' 0 True False start)))"
proof -
  have k: "SplineKernel
     \<lparr>obj_id = 11, base = 11, lo_byte = 0, hi_byte = 128, shape = [4, 4],
      dtype = Float64, c_contiguous = True, c_order = True\<rparr> 0 ''constant'' 3
     \<in> set (trace (snd (shift (image44 Float32) (PyScalar 1) (OutDtype Float64) 3
                           ''constant'' 0 True False start)))"
    by code_simp
  have m: "''constant'' \<noteq> ''opencv''" by simp
  from prefilter_workspace_is_double[of start "image44 Float32" "image44 Float64"
         "OutDtype Float64" 3 "''constant''" 0 True "A1 []" "PyScalar 0" None 0 "(1, 0)" True
         "PyScalar 1" "ZScalar 1"] m k
  show ?thesis unfolding list_all_iff by blast
qed

text \<open>
  Claim C1 as stated fails.  Input of 32-bit integers, float64 output,
  \<^verbatim>\<open>allow_float32=False\<close>, order 3: the call returns a float64 array, and the array
  that the sampling kernel interpolates is of type float32.
\<close>

theorem float32_intermediate_for_float64_output:
  "dtype_of_result
     (fst (map_coordinates (image44 Int32) (image44 Float64) (OutDtype Float64) 3
             ''constant'' 0 True False start)) = Some Float64 \<and>
   sampled_array
     (last (trace (snd (map_coordinates (image44 Int32) (image44 Float64) (OutDtype Float64)
                          3 ''constant'' 0 True False start))))
     = Some \<lparr>obj_id = 13, base = 13, lo_byte = 0, hi_byte = 64, shape = [4, 4],
             dtype = Float32, c_contiguous = True, c_order = True\<rparr> \<and>
   float_bytes Float32 < float_bytes Float64"
  by code_simp

subsection \<open>C2: when the shape of the shift and zoom vectors is checked\<close>

text \<open>
  Claim C2 fails on the code.  On the 4 by 4 example with order 3 and the prefilter on,
  \<^verbatim>\<open>shift\<close> is given a vector of length 3, and then a 2 by 2 matrix, and \<^verbatim>\<open>zoom\<close>
  a vector of length 1.  Each call raises the error of lines 814 to 817 (948 to 952 for
  \<^verbatim>\<open>zoom\<close>), and by then the prefilter kernel has been launched along both axes.
\<close>

theorem shape_errors_come_after_the_prefilter:
  "fst (shift (image44 Float64) (PyArr (A1 [1, 2, 3])) OutNone 3 ''constant'' 0 True True
          start)
     = Inl (ValueError ''len(shift) must equal input.ndim'') \<and>
   prefilter_launches
     (trace (snd (shift (image44 Float64) (PyArr (A1 [1, 2, 3])) OutNone 3 ''constant'' 0
                    True True start))) = [0, 1] \<and>
   fst (shift (image44 Float64) (PyArr (A2 2 [[1, 2], [3, 4]])) OutNone 3 ''constant'' 0 True
          True start)
     = Inl (ValueError ''shift must be 1d'') \<and>
   prefilter_launches
     (trace (snd (shift (image44 Float64) (PyArr (A2 2 [[1, 2], [3, 4]])) OutNone 3
                    ''constant'' 0 True True start))) = [0, 1] \<and>
   fst (zoom (image44 Float64) (ZSeq [2]) OutNone 3 ''constant'' 0 True True start)
     = Inl (ValueError ''len(zoom) must equal input.ndim'') \<and>
   prefilter_launches
     (trace (snd (zoom (image44 Float64) (ZSeq [2]) OutNone 3 ''constant'' 0 True True
                    start))) = [0, 1]"
  by code_simp

subsection \<open>C6: the forms of the affine matrix\<close>













subsection \<open>C3: the geometry of rotate with reshape\<close>












end
